theory Spec2Isabelle
  imports Complex_Main
begin

section \<open>Data model (auctions/models.py, users/models.py)\<close>

text \<open>
  Primary keys are natural numbers. A \<open>datetime\<close> is an integer number of seconds, and one
  request reads the clock once: every \<open>timezone.now()\<close> of a request is the parameter
  \<open>now\<close>. A \<open>Decimal\<close> amount is a rational number (addition, comparison and the
  multiplication by \<open>Decimal('1.1')\<close> are exact in both).
\<close>

type_synonym user_id = nat
type_synonym item_id = nat

datatype item_status = Active | Sold | Expired | Cancelled | Private | Off_sale

record item =
  item_pk :: item_id
  seller :: user_id
  current_price :: rat
  min_increment :: rat
  buy_now_price :: "rat option"
  item_created_at :: int
  end_time :: int
  status :: item_status
  bid_count :: int
  winner :: "user_id option"

record bid =
  bid_pk :: nat
  bid_item :: item_id
  bidder :: user_id
  amount :: rat
  bid_time :: int
  is_winning :: bool

datatype cooldown_type = Soft_challenge | Hard_cooldown | Captcha_failed | Suspended

datatype window_desc = Bids_in_2_minutes int | Bids_in_5_minutes int | Bids_in_20_seconds int

datatype cooldown_reason =
    Rapid_bidding window_desc
  | Excessive_bidding window_desc
  | High_velocity_across_auctions
  | Excessive_bidding_across_auctions
  | Suspicious_minimal_increment_pattern
  | Repeated_soft_challenge_violations
  | Failed_captcha_3_times

record bid_cooldown =
  cd_user :: user_id
  cd_item :: "item_id option"
  cooldown_type :: cooldown_type
  reason :: cooldown_reason
  expires_at :: int
  created_at :: int
  is_active :: bool
  captcha_required :: bool
  captcha_passed :: bool
  failed_attempts :: int

datatype severity = Low | Medium | High | Critical

datatype alert_type =
    Rapid_bidding_alert
  | Bid_sniping_pattern
  | Unusual_bid_amount
  | New_account_high_value
  | Self_bidding
  | Bid_pattern_anomaly
  | Other_alert string

record fraud_alert =
  fa_user :: user_id
  fa_item :: "item_id option"
  fa_alert_type :: alert_type
  fa_severity :: severity
  fa_bid :: nat
  is_resolved :: bool

text \<open>The \<open>User\<close> row together with its \<open>UserProfile\<close> bypass flags.\<close>

record user =
  user_pk :: user_id
  is_superuser :: bool
  date_joined :: int
  bypass_account_age_check :: bool
  bypass_rapid_bidding_check :: bool
  bypass_fraud_detection :: bool
  bypass_all_restrictions :: bool

record wallet =
  wallet_user :: user_id
  balance :: rat

text \<open>
  The database: one list of rows per table, in insertion order. \<open>next_bid_pk\<close> is the
  auto-increment counter of the \<open>Bid\<close> table.
\<close>

record db =
  db_items :: "item list"
  db_bids :: "bid list"
  db_cooldowns :: "bid_cooldown list"
  db_alerts :: "fraud_alert list"
  db_wallets :: "wallet list"
  next_bid_pk :: nat

section \<open>CooldownStore (BidCooldown, auctions/models.py)\<close>

definition cleanup_expired :: "int \<Rightarrow> db \<Rightarrow> db \<times> nat" where
  "cleanup_expired now s =
     (let expired = (\<lambda>c. is_active c \<and> expires_at c \<le> now)
      in (s\<lparr>db_cooldowns :=
               map (\<lambda>c. if expired c then c\<lparr>is_active := False\<rparr> else c) (db_cooldowns s)\<rparr>,
          length (filter expired (db_cooldowns s))))"

text \<open>
  \<open>order_by('-created_at').first()\<close>: a row with the greatest \<open>created_at\<close>; among rows
  created at the same instant (an order SQL leaves open) the earliest row of the table.
\<close>

fun newest_first :: "bid_cooldown list \<Rightarrow> bid_cooldown option" where
  "newest_first [] = None"
| "newest_first (c # cs) =
     (case newest_first cs of
        None \<Rightarrow> Some c
      | Some d \<Rightarrow> if created_at c < created_at d then Some d else Some c)"

definition cooldown_query :: "int \<Rightarrow> user_id \<Rightarrow> item_id option \<Rightarrow> bid_cooldown \<Rightarrow> bool" where
  "cooldown_query now u it c \<longleftrightarrow>
     cd_user c = u \<and> is_active c \<and> now < expires_at c \<and>
     (case it of
        Some i \<Rightarrow> cd_item c = Some i \<or> cd_item c = None
      | None \<Rightarrow> cd_item c = None)"

definition get_active_cooldown ::
  "int \<Rightarrow> db \<Rightarrow> user_id \<Rightarrow> item_id option \<Rightarrow> db \<times> bid_cooldown option" where
  "get_active_cooldown now s u it =
     (let s' = fst (cleanup_expired now s)
      in (s', newest_first (filter (cooldown_query now u it) (db_cooldowns s'))))"

definition has_active_cooldown :: "int \<Rightarrow> db \<Rightarrow> user_id \<Rightarrow> item_id option \<Rightarrow> db \<times> bool" where
  "has_active_cooldown now s u it =
     (case get_active_cooldown now s u it of (s', r) \<Rightarrow> (s', r \<noteq> None))"

section \<open>Settings (auction_system/settings.py is not part of the sources)\<close>

text \<open>
  The named thresholds the code reads from \<open>django.conf.settings\<close>, taken as a parameter.
  \<open>AUCTION_ENDGAME_MULTIPLIER\<close> is a Python float: the record holds the number the settings
  write, and \<open>scaled_threshold\<close> below rounds it to a double before it multiplies.
\<close>

record settings =
  AUCTION_ENDGAME_MULTIPLIER :: rat
  AUCTION_ENDGAME_WINDOW_MINUTES :: int
  RAPID_BID_SOFT_THRESHOLD_2MIN :: int
  RAPID_BID_SOFT_WINDOW_2MIN :: int
  RAPID_BID_SOFT_THRESHOLD_5MIN :: int
  RAPID_BID_SOFT_WINDOW_5MIN :: int
  RAPID_BID_HARD_THRESHOLD_5MIN :: int
  RAPID_BID_HARD_WINDOW_5MIN :: int
  RAPID_BID_HARD_THRESHOLD_20SEC :: int
  RAPID_BID_HARD_WINDOW_20SEC :: int
  RAPID_BID_COOLDOWN_DURATION :: int
  GLOBAL_VELOCITY_SOFT_WINDOW_MINUTES :: int
  GLOBAL_VELOCITY_SOFT_THRESHOLD_BIDS :: int
  GLOBAL_VELOCITY_SOFT_THRESHOLD_AUCTIONS :: int
  GLOBAL_VELOCITY_HARD_WINDOW_MINUTES :: int
  GLOBAL_VELOCITY_HARD_THRESHOLD_BIDS :: int
  GLOBAL_VELOCITY_HARD_THRESHOLD_AUCTIONS :: int
  MIN_INCREMENT_WINDOW_SECONDS :: int
  MIN_INCREMENT_THRESHOLD_BIDS :: int
  HIGH_VALUE_BID_THRESHOLD :: rat
  MIN_ACCOUNT_AGE_FOR_HIGH_BIDS :: int
  RAPID_BIDDING_WINDOW_MINUTES :: int
  RAPID_BIDDING_THRESHOLD :: int
  BID_SNIPING_WINDOW_SECONDS :: int
  BID_SNIPING_HISTORY_DAYS :: int
  BID_SNIPING_THRESHOLD :: int
  UNUSUAL_BID_MULTIPLIER :: rat
  BID_PATTERN_MIN_HISTORY :: int
  BID_PATTERN_DEVIATION_MULTIPLIER :: rat

section \<open>RapidBiddingDetector (auctions/rapid_bidding.py)\<close>

datatype action_type = Allow | Act cooldown_type

datatype gate_message =
    Complete_the_security_challenge
  | Wait_before_bidding_again int int
  | Too_many_verification_attempts
  | Unusual_activity_detected window_desc
  | Too_many_bids_too_quickly window_desc int
  | Unusual_bidding_activity_detected
  | Suspicious_cross_auction_bidding int
  | Unusual_bid_pattern_detected
  | Bid_allowed

type_synonym gate_result = "bool \<times> action_type \<times> gate_message \<times> int option"

definition is_auction_endgame :: "settings \<Rightarrow> int \<Rightarrow> item \<Rightarrow> bool" where
  "is_auction_endgame st now it =
     (if status it \<noteq> Active then False
      else (let time_remaining = end_time it - now;
                endgame_seconds = AUCTION_ENDGAME_WINDOW_MINUTES st * 60
            in 0 < time_remaining \<and> time_remaining \<le> endgame_seconds))"

text \<open>Python truth of an optional number: \<open>None\<close> and \<open>0\<close> are false.\<close>

definition truthy :: "int option \<Rightarrow> bool" where
  "truthy v = (case v of None \<Rightarrow> False | Some n \<Rightarrow> n \<noteq> 0)"

definition count_since :: "int \<Rightarrow> bid list \<Rightarrow> int" where
  "count_since window_start bs = int (length (filter (\<lambda>b. window_start \<le> bid_time b) bs))"

definition check_window :: "bid list \<Rightarrow> int \<Rightarrow> int option \<Rightarrow> int option \<Rightarrow> int \<Rightarrow> bool \<times> int" where
  "check_window bids_queryset now minutes seconds threshold =
     (if truthy minutes then
        (case minutes of
           Some m \<Rightarrow> (let n = count_since (now - m * 60) bids_queryset
                      in (threshold \<le> n + 1, n + 1))
         | None \<Rightarrow> (False, 0))
      else if truthy seconds then
        (case seconds of
           Some sec \<Rightarrow> (let n = count_since (now - sec) bids_queryset
                        in (threshold \<le> n + 1, n + 1))
         | None \<Rightarrow> (False, 0))
      else (False, 0))"

definition check_global_velocity_soft :: "settings \<Rightarrow> int \<Rightarrow> db \<Rightarrow> user_id \<Rightarrow> bool" where
  "check_global_velocity_soft st now s u =
     (let window_start = now - GLOBAL_VELOCITY_SOFT_WINDOW_MINUTES st * 60;
          recent_bids = filter (\<lambda>b. bidder b = u \<and> window_start \<le> bid_time b) (db_bids s);
          bid_cnt = int (length recent_bids) + 1;
          auction_count = int (length (remdups (map bid_item recent_bids)))
      in GLOBAL_VELOCITY_SOFT_THRESHOLD_BIDS st \<le> bid_cnt \<and>
         GLOBAL_VELOCITY_SOFT_THRESHOLD_AUCTIONS st \<le> auction_count)"

definition check_global_velocity_hard :: "settings \<Rightarrow> int \<Rightarrow> db \<Rightarrow> user_id \<Rightarrow> bool" where
  "check_global_velocity_hard st now s u =
     (let window_start = now - GLOBAL_VELOCITY_HARD_WINDOW_MINUTES st * 60;
          recent_bids = filter (\<lambda>b. bidder b = u \<and> window_start \<le> bid_time b) (db_bids s);
          bid_cnt = int (length recent_bids) + 1;
          auction_count = int (length (remdups (map bid_item recent_bids)))
      in GLOBAL_VELOCITY_HARD_THRESHOLD_BIDS st \<le> bid_cnt \<and>
         GLOBAL_VELOCITY_HARD_THRESHOLD_AUCTIONS st \<le> auction_count)"

text \<open>The loop over \<open>range(len(recent_bids) - 1)\<close>: consecutive pairs of amounts.\<close>

fun minimal_increment_pairs :: "rat \<Rightarrow> rat list \<Rightarrow> int" where
  "minimal_increment_pairs bound (x # y # rest) =
     (if y - x \<le> bound then 1 else 0) + minimal_increment_pairs bound (y # rest)"
| "minimal_increment_pairs bound rest = 0"

definition check_minimum_increment_pattern ::
  "settings \<Rightarrow> int \<Rightarrow> db \<Rightarrow> user_id \<Rightarrow> item \<Rightarrow> rat \<Rightarrow> bool" where
  "check_minimum_increment_pattern st now s u it current_bid_amount =
     (let window_start = now - MIN_INCREMENT_WINDOW_SECONDS st;
          recent_bids = sort_key bid_time
            (filter (\<lambda>b. bidder b = u \<and> bid_item b = item_pk it \<and> window_start \<le> bid_time b)
               (db_bids s));
          tolerance = 11 / 10;
          bound = min_increment it * tolerance
      in if int (length recent_bids) < MIN_INCREMENT_THRESHOLD_BIDS st - 1 then False
         else (let pairs = minimal_increment_pairs bound (map amount recent_bids);
                   minimal_increments =
                     (if current_bid_amount \<noteq> 0 \<and> recent_bids \<noteq> [] \<and>
                         current_bid_amount - amount (last recent_bids) \<le> bound
                      then pairs + 1 else pairs)
               in MIN_INCREMENT_THRESHOLD_BIDS st \<le> minimal_increments))"

text \<open>
  \<open>BidCooldown.objects.create\<close>: the fields the call names, the model's defaults for the
  others, \<open>created_at\<close> set by \<open>auto_now_add\<close>.
\<close>

definition create_hard_cooldown ::
  "int \<Rightarrow> db \<Rightarrow> user_id \<Rightarrow> item_id option \<Rightarrow> int \<Rightarrow> cooldown_reason \<Rightarrow> db" where
  "create_hard_cooldown now s u it duration_seconds why =
     s\<lparr>db_cooldowns := db_cooldowns s @
        [\<lparr>cd_user = u, cd_item = it, cooldown_type = Hard_cooldown, reason = why,
          expires_at = now + duration_seconds, created_at = now, is_active = True,
          captcha_required = False, captcha_passed = False, failed_attempts = 0\<rparr>]\<rparr>"

definition recent_soft_challenges :: "int \<Rightarrow> db \<Rightarrow> user_id \<Rightarrow> item_id option \<Rightarrow> int" where
  "recent_soft_challenges now s u it =
     int (length (filter (\<lambda>c. cd_user c = u \<and> cd_item c = it \<and>
                               cooldown_type c = Soft_challenge \<and> now - 3600 \<le> created_at c)
                    (db_cooldowns s)))"

text \<open>Returns the new database and whether it escalated to a hard cooldown.\<close>

definition create_soft_challenge ::
  "settings \<Rightarrow> int \<Rightarrow> db \<Rightarrow> user_id \<Rightarrow> item_id option \<Rightarrow> cooldown_reason \<Rightarrow> db \<times> bool" where
  "create_soft_challenge st now s u it why =
     (if 2 \<le> recent_soft_challenges now s u it then
        (create_hard_cooldown now s u it (RAPID_BID_COOLDOWN_DURATION st * 2)
           Repeated_soft_challenge_violations, True)
      else if filter (\<lambda>c. cd_user c = u \<and> cd_item c = it \<and>
                           cooldown_type c = Soft_challenge \<and> is_active c) (db_cooldowns s) = []
      then
        (s\<lparr>db_cooldowns := db_cooldowns s @
           [\<lparr>cd_user = u, cd_item = it, cooldown_type = Soft_challenge, reason = why,
             expires_at = now + 600, created_at = now, is_active = True,
             captcha_required = True, captcha_passed = False, failed_attempts = 0\<rparr>]\<rparr>, False)
      else (s, False))"

text \<open>Lines 25-42 of \<open>check_rapid_bidding\<close>: the answer an existing cooldown gives, if any.\<close>

definition existing_cooldown_result :: "int \<Rightarrow> bid_cooldown option \<Rightarrow> gate_result option" where
  "existing_cooldown_result now existing =
     (case existing of
        None \<Rightarrow> None
      | Some c \<Rightarrow>
          if cooldown_type c = Soft_challenge \<and> \<not> captcha_passed c then
            Some (False, Act Soft_challenge, Complete_the_security_challenge, None)
          else if cooldown_type c = Hard_cooldown \<or> cooldown_type c = Suspended then
            (let time_remaining = expires_at c - now
             in Some (False, Act (cooldown_type c),
                      Wait_before_bidding_again (time_remaining div 60) (time_remaining mod 60),
                      Some time_remaining))
          else None)"

text \<open>
  \<open>math.ceil(threshold * multiplier)\<close>. The threshold is a Python \<open>int\<close> and the
  multiplier a \<open>float\<close> (\<open>1.0\<close>, or the setting), so the product is a product of
  doubles: the threshold is converted to a double, the multiplier is the double nearest to the
  number the settings write, and the product is rounded to the nearest double again, ties to
  the even significand, before the ceiling is taken. A double is modelled by the rational it
  denotes; a significand has 53 bits, and below \<open>2 ^ - 1022\<close> the spacing of the doubles
  stays \<open>2 ^ - 1074\<close>. The exponent has no upper bound here: at \<open>2 ^ 1024\<close> and above
  Python raises \<open>OverflowError\<close> (from the conversion of the \<open>int\<close>, or from
  \<open>math.ceil\<close> of an infinity), which no theorem below comes near.
\<close>

function bit_length :: "int \<Rightarrow> nat" where
  "bit_length n = (if n \<le> 0 then 0 else Suc (bit_length (n div 2)))"
  by auto
termination by (relation "measure nat") auto

declare bit_length.simps [simp del]

definition round_half_even :: "rat \<Rightarrow> int" where
  "round_half_even x =
     (let f = \<lfloor>x\<rfloor>; r = x - of_int f
      in if r < 1 / 2 then f else if 1 / 2 < r then f + 1 else if even f then f else f + 1)"

text \<open>The exponent \<open>e\<close> of a non-zero rational: \<open>2 ^ e \<le> \<bar>x\<bar> < 2 ^ (e + 1)\<close>.\<close>

definition double_exponent :: "rat \<Rightarrow> int" where
  "double_exponent x =
     (case quotient_of \<bar>x\<bar> of
        (a, b) \<Rightarrow> (let k = int (bit_length a) - int (bit_length b)
                   in if 2 powi k \<le> \<bar>x\<bar> then k else k - 1))"

text \<open>The double nearest to a rational.\<close>

definition double_round :: "rat \<Rightarrow> rat" where
  "double_round x =
     (if x = 0 then 0
      else (let ulp = 2 powi (max (double_exponent x) (- 1022) - 52)
            in of_int (round_half_even (x / ulp)) * ulp))"

definition scaled_threshold :: "int \<Rightarrow> rat \<Rightarrow> int" where
  "scaled_threshold threshold multiplier =
     \<lceil>double_round (double_round (of_int threshold) * double_round multiplier)\<rceil>"

definition endgame_multiplier :: "settings \<Rightarrow> int \<Rightarrow> item \<Rightarrow> rat" where
  "endgame_multiplier st now it =
     (if is_auction_endgame st now it then AUCTION_ENDGAME_MULTIPLIER st else 1)"

definition user_item_bids :: "db \<Rightarrow> user_id \<Rightarrow> item \<Rightarrow> bid list" where
  "user_item_bids s u it = filter (\<lambda>b. bidder b = u \<and> bid_item b = item_pk it) (db_bids s)"

definition soft_2min :: "settings \<Rightarrow> int \<Rightarrow> db \<Rightarrow> user_id \<Rightarrow> item \<Rightarrow> bool \<times> int" where
  "soft_2min st now s u it =
     check_window (user_item_bids s u it) now (Some (RAPID_BID_SOFT_WINDOW_2MIN st)) None
       (scaled_threshold (RAPID_BID_SOFT_THRESHOLD_2MIN st) (endgame_multiplier st now it))"

definition soft_5min :: "settings \<Rightarrow> int \<Rightarrow> db \<Rightarrow> user_id \<Rightarrow> item \<Rightarrow> bool \<times> int" where
  "soft_5min st now s u it =
     check_window (user_item_bids s u it) now (Some (RAPID_BID_SOFT_WINDOW_5MIN st)) None
       (scaled_threshold (RAPID_BID_SOFT_THRESHOLD_5MIN st) (endgame_multiplier st now it))"

definition hard_5min :: "settings \<Rightarrow> int \<Rightarrow> db \<Rightarrow> user_id \<Rightarrow> item \<Rightarrow> bool \<times> int" where
  "hard_5min st now s u it =
     check_window (user_item_bids s u it) now (Some (RAPID_BID_HARD_WINDOW_5MIN st)) None
       (scaled_threshold (RAPID_BID_HARD_THRESHOLD_5MIN st) (endgame_multiplier st now it))"

definition hard_20sec :: "settings \<Rightarrow> int \<Rightarrow> db \<Rightarrow> user_id \<Rightarrow> item \<Rightarrow> bool \<times> int" where
  "hard_20sec st now s u it =
     check_window (user_item_bids s u it) now None (Some (RAPID_BID_HARD_WINDOW_20SEC st))
       (scaled_threshold (RAPID_BID_HARD_THRESHOLD_20SEC st) (endgame_multiplier st now it))"

text \<open>Lines 44-144 of \<open>check_rapid_bidding\<close>, reached when no existing cooldown answers.\<close>

definition velocity_checks ::
  "settings \<Rightarrow> int \<Rightarrow> db \<Rightarrow> user_id \<Rightarrow> item \<Rightarrow> rat \<Rightarrow> db \<times> gate_result" where
  "velocity_checks st now s u it bid_amount =
     (if fst (soft_2min st now s u it) \<or> fst (soft_5min st now s u it) then
        (let desc = (if fst (soft_2min st now s u it)
                     then Bids_in_2_minutes (snd (soft_2min st now s u it))
                     else Bids_in_5_minutes (snd (soft_5min st now s u it)))
         in case create_soft_challenge st now s u (Some (item_pk it)) (Rapid_bidding desc) of
              (s', escalated) \<Rightarrow>
                if escalated then
                  (s', False, Act Hard_cooldown, Too_many_verification_attempts,
                   Some (RAPID_BID_COOLDOWN_DURATION st * 2))
                else (s', False, Act Soft_challenge, Unusual_activity_detected desc, None))
      else if fst (hard_5min st now s u it) \<or> fst (hard_20sec st now s u it) then
        (let cooldown_duration = RAPID_BID_COOLDOWN_DURATION st;
             desc = (if fst (hard_5min st now s u it)
                     then Bids_in_5_minutes (snd (hard_5min st now s u it))
                     else Bids_in_20_seconds (snd (hard_20sec st now s u it)))
         in (create_hard_cooldown now s u (Some (item_pk it)) cooldown_duration
               (Excessive_bidding desc),
             False, Act Hard_cooldown,
             Too_many_bids_too_quickly desc (cooldown_duration div 60), Some cooldown_duration))
      else if check_global_velocity_soft st now s u then
        (fst (create_soft_challenge st now s u None High_velocity_across_auctions),
         False, Act Soft_challenge, Unusual_bidding_activity_detected, None)
      else if check_global_velocity_hard st now s u then
        (let cooldown_duration = RAPID_BID_COOLDOWN_DURATION st * 2
         in (create_hard_cooldown now s u None cooldown_duration
               Excessive_bidding_across_auctions,
             False, Act Hard_cooldown,
             Suspicious_cross_auction_bidding (cooldown_duration div 60), Some cooldown_duration))
      else if check_minimum_increment_pattern st now s u it bid_amount then
        (fst (create_soft_challenge st now s u (Some (item_pk it))
                Suspicious_minimal_increment_pattern),
         False, Act Soft_challenge, Unusual_bid_pattern_detected, None)
      else (s, True, Allow, Bid_allowed, None))"

definition check_rapid_bidding ::
  "settings \<Rightarrow> int \<Rightarrow> db \<Rightarrow> user_id \<Rightarrow> item \<Rightarrow> rat \<Rightarrow> db \<times> gate_result" where
  "check_rapid_bidding st now s u it bid_amount =
     (case get_active_cooldown now s u (Some (item_pk it)) of
        (s', existing) \<Rightarrow>
          (case existing_cooldown_result now existing of
             Some r \<Rightarrow> (s', r)
           | None \<Rightarrow> velocity_checks st now s' u it bid_amount))"

section \<open>Django's name resolution\<close>

text \<open>
  Django resolves the field name given to \<open>order_by\<close> against the fields of the model and
  raises \<open>FieldError\<close> for a name the model does not have; the constructor of a model
  (\<open>objects.create(**kwargs)\<close>) raises \<open>TypeError\<close> for a keyword that is not one of its
  fields. The field lists below are those of the model classes (\<open>Bid\<close> in
  auctions/models.py, \<open>WalletTransaction\<close> in users/models.py); neither model has a
  property or a reverse relation of another name.
\<close>

datatype error = Http404 | FieldError | TypeError | KeyError

definition Bid_fields :: "string list" where
  "Bid_fields = [''id'', ''item'', ''bidder'', ''amount'', ''bid_time'', ''is_winning'',
                 ''payment_method'', ''payment_reference'']"

definition WalletTransaction_fields :: "string list" where
  "WalletTransaction_fields =
     [''id'', ''wallet'', ''transaction_type'', ''amount'', ''balance_after'', ''description'',
      ''payment_method'', ''payment_reference'', ''status'', ''metadata'', ''created_at'',
      ''updated_at'']"

definition order_by :: "string list \<Rightarrow> string \<Rightarrow> error + unit" where
  "order_by model_fields name =
     (let field = (case name of c # cs \<Rightarrow> if c = CHR ''-'' then cs else name | [] \<Rightarrow> name)
      in if field \<in> set model_fields then Inr () else Inl FieldError)"

definition model_init :: "string list \<Rightarrow> string list \<Rightarrow> error + unit" where
  "model_init model_fields kwargs =
     (if list_all (\<lambda>k. k \<in> set model_fields) kwargs then Inr () else Inl TypeError)"

section \<open>FraudDetectionService (auctions/fraud_detection.py)\<close>

definition get_item :: "db \<Rightarrow> item_id \<Rightarrow> item option" where
  "get_item s pk = find (\<lambda>i. item_pk i = pk) (db_items s)"

definition new_alert :: "item \<Rightarrow> bid \<Rightarrow> alert_type \<Rightarrow> severity \<Rightarrow> fraud_alert" where
  "new_alert it b t sev =
     \<lparr>fa_user = bidder b, fa_item = Some (item_pk it), fa_alert_type = t, fa_severity = sev,
      fa_bid = bid_pk b, is_resolved = False\<rparr>"

definition detect_rapid_bidding :: "settings \<Rightarrow> int \<Rightarrow> db \<Rightarrow> item \<Rightarrow> bid \<Rightarrow> fraud_alert list" where
  "detect_rapid_bidding st now s it b =
     (let time_window = now - RAPID_BIDDING_WINDOW_MINUTES st * 60;
          recent_bids = int (length (filter (\<lambda>x. bidder x = bidder b \<and> time_window \<le> bid_time x)
                                       (db_bids s)))
      in if RAPID_BIDDING_THRESHOLD st \<le> recent_bids
         then [new_alert it b Rapid_bidding_alert High] else [])"

definition is_snipe :: "settings \<Rightarrow> db \<Rightarrow> bid \<Rightarrow> bool" where
  "is_snipe st s past_bid =
     (case get_item s (bid_item past_bid) of
        None \<Rightarrow> False
      | Some i \<Rightarrow> end_time i - bid_time past_bid \<le> BID_SNIPING_WINDOW_SECONDS st)"

definition detect_bid_sniping :: "settings \<Rightarrow> int \<Rightarrow> db \<Rightarrow> item \<Rightarrow> bid \<Rightarrow> fraud_alert list" where
  "detect_bid_sniping st now s it b =
     (if end_time it - now \<le> BID_SNIPING_WINDOW_SECONDS st then
        (let recent_snipes =
               int (length (filter (\<lambda>x. bidder x = bidder b \<and>
                                         now - BID_SNIPING_HISTORY_DAYS st * 86400 \<le> bid_time x \<and>
                                         is_snipe st s x) (db_bids s)))
         in if BID_SNIPING_THRESHOLD st \<le> recent_snipes
            then [new_alert it b Bid_sniping_pattern Medium] else [])
      else [])"

text \<open>\<open>aggregate(Avg('amount'))\<close>: \<open>None\<close> over no rows.\<close>

definition avg_amount :: "bid list \<Rightarrow> rat option" where
  "avg_amount bs = (if bs = [] then None else Some (sum_list (map amount bs) / of_nat (length bs)))"

definition detect_unusual_bid_amount :: "settings \<Rightarrow> db \<Rightarrow> item \<Rightarrow> bid \<Rightarrow> fraud_alert list" where
  "detect_unusual_bid_amount st s it b =
     (case avg_amount (filter (\<lambda>x. bid_item x = item_pk it) (db_bids s)) of
        None \<Rightarrow> []
      | Some avg_bid \<Rightarrow>
          if avg_bid \<noteq> 0 \<and> avg_bid * UNUSUAL_BID_MULTIPLIER st \<le> amount b
          then [new_alert it b Unusual_bid_amount Medium] else [])"

definition detect_new_account_high_value ::
  "settings \<Rightarrow> int \<Rightarrow> item \<Rightarrow> user \<Rightarrow> bid \<Rightarrow> fraud_alert list" where
  "detect_new_account_high_value st now it usr b =
     (let account_age_days = (now - date_joined usr) div 86400
      in if account_age_days < MIN_ACCOUNT_AGE_FOR_HIGH_BIDS st \<and>
            HIGH_VALUE_BID_THRESHOLD st \<le> amount b
         then [new_alert it b New_account_high_value High] else [])"

definition detect_self_bidding :: "item \<Rightarrow> bid \<Rightarrow> fraud_alert list" where
  "detect_self_bidding it b =
     (if seller it = bidder b then [new_alert it b Self_bidding Critical] else [])"

text \<open>
  \<open>Bid.objects.filter(bidder=bid.bidder).order_by('-created_at')[:20]\<close>: the query names a
  field \<open>created_at\<close>. Past the name resolution, the history is at most 20 of the user's bids.
\<close>

definition detect_bid_pattern_anomaly ::
  "settings \<Rightarrow> db \<Rightarrow> item \<Rightarrow> bid \<Rightarrow> error + fraud_alert list" where
  "detect_bid_pattern_anomaly st s it b =
     (case order_by Bid_fields ''-created_at'' of
        Inl e \<Rightarrow> Inl e
      | Inr _ \<Rightarrow>
          (let user_bid_history = take 20 (filter (\<lambda>x. bidder x = bidder b) (db_bids s))
           in if BID_PATTERN_MIN_HISTORY st \<le> int (length user_bid_history) then
                (case avg_amount user_bid_history of
                   None \<Rightarrow> Inr []
                 | Some avg \<Rightarrow>
                     if avg * BID_PATTERN_DEVIATION_MULTIPLIER st \<le> amount b
                     then Inr [new_alert it b Bid_pattern_anomaly Medium] else Inr [])
              else Inr []))"

text \<open>
  What the service is built with: whether an OpenAI key is configured, the five shill
  detectors that \<open>analyze_bid\<close> calls after \<open>detect_bid_pattern_anomaly\<close> (lines 40-44), and
  the external OpenAI assessment.
\<close>

record fraud_service =
  openai_enabled :: bool
  shill_detectors :: "db \<Rightarrow> int \<Rightarrow> item \<Rightarrow> user \<Rightarrow> bid \<Rightarrow> error + fraud_alert list"
  get_ai_fraud_assessment :: "bid \<Rightarrow> fraud_alert list \<Rightarrow> fraud_alert option"

text \<open>The calls run in order; the first exception leaves the function.\<close>

fun extend_all :: "(error + 'a list) list \<Rightarrow> error + 'a list" where
  "extend_all [] = Inr []"
| "extend_all (Inl e # rest) = Inl e"
| "extend_all (Inr xs # rest) =
     (case extend_all rest of Inl e \<Rightarrow> Inl e | Inr ys \<Rightarrow> Inr (xs @ ys))"

definition analyze_bid ::
  "fraud_service \<Rightarrow> settings \<Rightarrow> int \<Rightarrow> db \<Rightarrow> item \<Rightarrow> user \<Rightarrow> bid \<Rightarrow>
     error + (fraud_alert list \<times> db)" where
  "analyze_bid fs st now s it usr b =
     (case extend_all
             [Inr (detect_rapid_bidding st now s it b),
              Inr (detect_bid_sniping st now s it b),
              Inr (detect_unusual_bid_amount st s it b),
              Inr (detect_new_account_high_value st now it usr b),
              Inr (detect_self_bidding it b),
              detect_bid_pattern_anomaly st s it b,
              shill_detectors fs s now it usr b] of
        Inl e \<Rightarrow> Inl e
      | Inr found \<Rightarrow>
          (let alerts =
                 (if openai_enabled fs \<and> found \<noteq> [] then
                    (case get_ai_fraud_assessment fs b found of
                       Some a \<Rightarrow> found @ [a]
                     | None \<Rightarrow> found)
                  else found)
           in Inr (alerts, s\<lparr>db_alerts := db_alerts s @ alerts\<rparr>)))"

section \<open>Bid form and the place_bid view (auctions/forms.py, auctions/views.py)\<close>

datatype level = Error_level | Warning_level | Success_level | Info_level

datatype form_error =
    Invalid_amount
  | Item_not_found
  | Must_be_higher_than_current_price rat
  | Must_be_at_least rat

datatype message =
    Cannot_bid_on_own_item
  | Auction_no_longer_active
  | Auction_has_ended
  | Form_error form_error
  | Gate_message gate_message
  | Account_too_new int int
  | Fraud_blocked
  | Fraud_under_review
  | Fraud_logged_with_bypass
  | Bid_placed rat
  | No_buy_now_price
  | Cannot_buy_own_item
  | Bidding_has_started
  | Insufficient_wallet_balance rat rat
  | Wallet_needed
  | Someone_else_purchased
  | Purchased rat
  | Platform_fee rat rat
  | Complete_the_verification
  | Invalid_or_expired_code
  | Incorrect_answer
  | No_pending_bid
  | Verification_expired
  | Price_raised_while_verifying rat
  | Flagged_by_fraud_detection
  | Placed_but_flagged_for_review
  | Verification_successful rat

type_synonym messages = "(level \<times> message) list"

definition clean_amount :: "item option \<Rightarrow> rat \<Rightarrow> form_error + rat" where
  "clean_amount form_item amt =
     (case form_item of
        None \<Rightarrow> Inl Item_not_found
      | Some it \<Rightarrow>
          if amt \<le> current_price it then Inl (Must_be_higher_than_current_price (current_price it))
          else (let min_bid = current_price it + min_increment it
                in if amt < min_bid then Inl (Must_be_at_least min_bid) else Inr amt))"

text \<open>
  \<open>form.is_valid()\<close>: the posted amount is \<open>None\<close> when the field itself does not validate
  (missing, not a number, too many digits); otherwise \<open>clean_amount\<close> decides.
\<close>

definition form_is_valid :: "item \<Rightarrow> rat option \<Rightarrow> form_error + rat" where
  "form_is_valid it posted =
     (case posted of None \<Rightarrow> Inl Invalid_amount | Some amt \<Rightarrow> clean_amount (Some it) amt)"

text \<open>The session keys \<open>pending_bid_<id>\<close> and \<open>show_captcha_<id>\<close>, per item id.\<close>

record pending_bid =
  pb_amount :: rat
  pb_item_id :: item_id
  pb_timestamp :: int

record session =
  pending_bids :: "(item_id \<times> pending_bid) list"
  show_captcha :: "(item_id \<times> bool) list"

definition session_set :: "'k \<Rightarrow> 'v \<Rightarrow> ('k \<times> 'v) list \<Rightarrow> ('k \<times> 'v) list" where
  "session_set k v kvs = (k, v) # filter (\<lambda>p. fst p \<noteq> k) kvs"

record request =
  method_is_post :: bool
  req_user :: user
  post_amount :: "rat option"

definition bypass_all :: "user \<Rightarrow> bool" where
  "bypass_all usr \<longleftrightarrow> is_superuser usr \<or> bypass_all_restrictions usr"

definition bypass_rapid_bidding :: "user \<Rightarrow> bool" where
  "bypass_rapid_bidding usr \<longleftrightarrow>
     is_superuser usr \<or> bypass_rapid_bidding_check usr \<or> bypass_all usr"

definition bypass_account_age :: "user \<Rightarrow> bool" where
  "bypass_account_age usr \<longleftrightarrow> is_superuser usr \<or> bypass_account_age_check usr \<or> bypass_all usr"

definition bypass_fraud :: "user \<Rightarrow> bool" where
  "bypass_fraud usr \<longleftrightarrow> is_superuser usr \<or> bypass_fraud_detection usr \<or> bypass_all usr"

text \<open>Step 1 (lines 190-209): new database and session, \<open>should_reject_bid\<close>, the reasons.\<close>

definition rapid_bidding_step ::
  "settings \<Rightarrow> int \<Rightarrow> db \<Rightarrow> session \<Rightarrow> user \<Rightarrow> item \<Rightarrow> rat \<Rightarrow>
     db \<times> session \<times> bool \<times> messages" where
  "rapid_bidding_step st now s sess usr it bid_amount =
     (if bypass_rapid_bidding usr then (s, sess, False, [])
      else
        (case check_rapid_bidding st now s (user_pk usr) it bid_amount of
           (s', is_allowed, action, rapid_message, cooldown) \<Rightarrow>
             if is_allowed then (s', sess, False, [])
             else if action = Act Soft_challenge then
               (s',
                sess\<lparr>pending_bids :=
                        session_set (item_pk it)
                          \<lparr>pb_amount = bid_amount, pb_item_id = item_pk it, pb_timestamp = now\<rparr>
                          (pending_bids sess),
                      show_captcha := session_set (item_pk it) True (show_captcha sess)\<rparr>,
                True, [(Warning_level, Gate_message rapid_message)])
             else (s', sess, True, [(Error_level, Gate_message rapid_message)])))"

text \<open>Step 2 (lines 211-225).\<close>

definition account_age_step :: "settings \<Rightarrow> int \<Rightarrow> user \<Rightarrow> rat \<Rightarrow> bool \<times> messages" where
  "account_age_step st now usr bid_amount =
     (if bypass_account_age usr then (False, [])
      else
        (let account_age_days = (now - date_joined usr) div 86400
         in if HIGH_VALUE_BID_THRESHOLD st < bid_amount \<and>
               account_age_days < MIN_ACCOUNT_AGE_FOR_HIGH_BIDS st
            then (True, [(Error_level,
                          Account_too_new account_age_days
                            (MIN_ACCOUNT_AGE_FOR_HIGH_BIDS st - account_age_days))])
            else (False, [])))"

text \<open>Step 3 (line 228), \<open>bid.save()\<close>: a new row with the next primary key.\<close>

definition save_bid :: "int \<Rightarrow> db \<Rightarrow> item \<Rightarrow> user \<Rightarrow> rat \<Rightarrow> db \<times> bid" where
  "save_bid now s it usr bid_amount =
     (let b = \<lparr>bid_pk = next_bid_pk s, bid_item = item_pk it, bidder = user_pk usr,
                amount = bid_amount, bid_time = now, is_winning = False\<rparr>
      in (s\<lparr>db_bids := db_bids s @ [b], next_bid_pk := Suc (next_bid_pk s)\<rparr>, b))"

text \<open>
  Step 4 (lines 230-272). An exception of \<open>analyze_bid\<close> is caught and logged:
  \<open>fraud_alerts\<close> stays empty.
\<close>

definition fraud_step ::
  "fraud_service \<Rightarrow> settings \<Rightarrow> int \<Rightarrow> db \<Rightarrow> item \<Rightarrow> user \<Rightarrow> bid \<Rightarrow> db \<times> bool \<times> messages" where
  "fraud_step fs st now s it usr b =
     (case analyze_bid fs st now s it usr b of
        Inl e \<Rightarrow> (s, False, [])
      | Inr (fraud_alerts, s') \<Rightarrow>
          if fraud_alerts = [] then (s', False, [])
          else if \<not> bypass_fraud usr then
            (if filter (\<lambda>a. fa_severity a = Critical) fraud_alerts \<noteq> []
             then (s', True, [(Error_level, Fraud_blocked)])
             else (s', False, [(Warning_level, Fraud_under_review)]))
          else (s', False, [(Warning_level, Fraud_logged_with_bypass)]))"

definition delete_bid :: "db \<Rightarrow> bid \<Rightarrow> db" where
  "delete_bid s b = s\<lparr>db_bids := filter (\<lambda>x. bid_pk x \<noteq> bid_pk b) (db_bids s)\<rparr>"

text \<open>
  \<open>order_by('-amount').first()\<close>: a row with the greatest amount; among equal amounts (an
  order SQL leaves open) the earliest row of the table.
\<close>

fun highest_first :: "bid list \<Rightarrow> bid option" where
  "highest_first [] = None"
| "highest_first (b # bs) =
     (case highest_first bs of
        None \<Rightarrow> Some b
      | Some h \<Rightarrow> if amount b < amount h then Some h else Some b)"

text \<open>
  Step 6 (lines 284-294). \<open>it\<close> is the \<open>Item\<close> object loaded at the start of the request;
  \<open>item.save(update_fields=['current_price', 'bid_count'])\<close> writes these two fields of it.
\<close>

definition update_auction_state :: "db \<Rightarrow> item \<Rightarrow> db" where
  "update_auction_state s it =
     (let cleared = map (\<lambda>b. if bid_item b = item_pk it then b\<lparr>is_winning := False\<rparr> else b)
                      (db_bids s);
          highest_bid = highest_first (filter (\<lambda>b. bid_item b = item_pk it) cleared);
          marked = (case highest_bid of
                      None \<Rightarrow> cleared
                    | Some h \<Rightarrow> map (\<lambda>b. if bid_pk b = bid_pk h then b\<lparr>is_winning := True\<rparr> else b)
                                 cleared);
          price = (case highest_bid of None \<Rightarrow> current_price it | Some h \<Rightarrow> amount h)
      in s\<lparr>db_bids := marked,
           db_items := map (\<lambda>i. if item_pk i = item_pk it
                                 then i\<lparr>current_price := price, bid_count := bid_count it + 1\<rparr>
                                 else i) (db_items s)\<rparr>)"

text \<open>Lines 170-300: the path of a bid whose form is valid.\<close>

definition place_valid_bid ::
  "fraud_service \<Rightarrow> settings \<Rightarrow> int \<Rightarrow> db \<Rightarrow> session \<Rightarrow> user \<Rightarrow> item \<Rightarrow> rat \<Rightarrow>
     db \<times> session \<times> messages" where
  "place_valid_bid fs st now s sess usr it bid_amount =
     (case rapid_bidding_step st now s sess usr it bid_amount of
        (s1, sess1, rejected1, reasons1) \<Rightarrow>
     (case account_age_step st now usr bid_amount of
        (rejected2, reasons2) \<Rightarrow>
     (case save_bid now s1 it usr bid_amount of
        (s2, b) \<Rightarrow>
     (case fraud_step fs st now s2 it usr b of
        (s3, rejected3, reasons3) \<Rightarrow>
          (let rejection_reasons = reasons1 @ reasons2 @ reasons3
           in if rejected1 \<or> rejected2 \<or> rejected3
              then (delete_bid s3 b, sess1, rejection_reasons)
              else (update_auction_state s3 it, sess1,
                    (Success_level, Bid_placed bid_amount) #
                    filter (\<lambda>m. fst m = Warning_level) rejection_reasons))))))"

definition place_bid ::
  "fraud_service \<Rightarrow> settings \<Rightarrow> int \<Rightarrow> db \<Rightarrow> session \<Rightarrow> request \<Rightarrow> item_id \<Rightarrow>
     error + (db \<times> session \<times> messages)" where
  "place_bid fs st now s sess req pk =
     (case get_item s pk of
        None \<Rightarrow> Inl Http404
      | Some it \<Rightarrow>
          if \<not> method_is_post req then Inr (s, sess, [])
          else if seller it = user_pk (req_user req)
            then Inr (s, sess, [(Error_level, Cannot_bid_on_own_item)])
          else if status it \<noteq> Active
            then Inr (s, sess, [(Error_level, Auction_no_longer_active)])
          else if end_time it \<le> now
            then Inr (s, sess, [(Error_level, Auction_has_ended)])
          else
            (case form_is_valid it (post_amount req) of
               Inl e \<Rightarrow> Inr (s, sess, [(Error_level, Form_error e)])
             | Inr bid_amount \<Rightarrow>
                 Inr (place_valid_bid fs st now s sess (req_user req) it bid_amount)))"

text \<open>
  The statements of step 6 one by one. \<open>place_bid\<close> opens no transaction and takes no lock
  (\<open>consumers.create_bid\<close> asks for one with \<open>select_for_update\<close>), so under Django's
  autocommit every statement is committed on its own, and statements of another request can
  run between two of them.
\<close>

text \<open>Line 285, \<open>Bid.objects.filter(item=item).update(is_winning=False)\<close>.\<close>

definition clear_winning :: "db \<Rightarrow> item \<Rightarrow> db" where
  "clear_winning s it =
     s\<lparr>db_bids := map (\<lambda>b. if bid_item b = item_pk it then b\<lparr>is_winning := False\<rparr> else b)
                        (db_bids s)\<rparr>"

text \<open>Line 287, \<open>item.bids.order_by('-amount').first()\<close>.\<close>

definition highest_bid_of :: "db \<Rightarrow> item \<Rightarrow> bid option" where
  "highest_bid_of s it = highest_first (filter (\<lambda>b. bid_item b = item_pk it) (db_bids s))"

text \<open>
  Line 290, \<open>highest_bid.save(update_fields=['is_winning'])\<close>: the row with the primary key
  of the object takes the object's \<open>is_winning\<close>.
\<close>

definition save_is_winning :: "db \<Rightarrow> bid \<Rightarrow> db" where
  "save_is_winning s h =
     s\<lparr>db_bids := map (\<lambda>b. if bid_pk b = bid_pk h then b\<lparr>is_winning := is_winning h\<rparr> else b)
                        (db_bids s)\<rparr>"

text \<open>
  Line 294, \<open>item.save(update_fields=['current_price', 'bid_count'])\<close>: the row of the item
  takes these two fields of the object.
\<close>

definition save_price_and_count :: "db \<Rightarrow> item \<Rightarrow> db" where
  "save_price_and_count s it =
     s\<lparr>db_items := map (\<lambda>i. if item_pk i = item_pk it
                               then i\<lparr>current_price := current_price it, bid_count := bid_count it\<rparr>
                               else i) (db_items s)\<rparr>"

text \<open>Lines 285-287: the database and the local variable \<open>highest_bid\<close>.\<close>

definition commit_begin :: "db \<Rightarrow> item \<Rightarrow> db \<times> bid option" where
  "commit_begin s it = (let s1 = clear_winning s it in (s1, highest_bid_of s1 it))"

text \<open>Lines 288-294, on the objects \<open>item\<close> and \<open>highest_bid\<close> the request holds.\<close>

definition commit_end :: "db \<Rightarrow> item \<Rightarrow> bid option \<Rightarrow> db" where
  "commit_end s it highest_bid =
     (case highest_bid of
        None \<Rightarrow> save_price_and_count s (it\<lparr>bid_count := bid_count it + 1\<rparr>)
      | Some h \<Rightarrow>
          save_price_and_count (save_is_winning s (h\<lparr>is_winning := True\<rparr>))
            (it\<lparr>current_price := amount h, bid_count := bid_count it + 1\<rparr>))"

text \<open>
  Steps 1 to 4 (lines 190-272) of a bid whose form is valid: the database with the bid saved,
  the session, the reasons, \<open>should_reject_bid\<close> and the bid.
\<close>

definition checked_bid ::
  "fraud_service \<Rightarrow> settings \<Rightarrow> int \<Rightarrow> db \<Rightarrow> session \<Rightarrow> user \<Rightarrow> item \<Rightarrow> rat \<Rightarrow>
     db \<times> session \<times> messages \<times> bool \<times> bid" where
  "checked_bid fs st now s sess usr it bid_amount =
     (case rapid_bidding_step st now s sess usr it bid_amount of
        (s1, sess1, rejected1, reasons1) \<Rightarrow>
     (case account_age_step st now usr bid_amount of
        (rejected2, reasons2) \<Rightarrow>
     (case save_bid now s1 it usr bid_amount of
        (s2, b) \<Rightarrow>
     (case fraud_step fs st now s2 it usr b of
        (s3, rejected3, reasons3) \<Rightarrow>
          (s3, sess1, reasons1 @ reasons2 @ reasons3, rejected1 \<or> rejected2 \<or> rejected3, b)))))"

text \<open>
  \<open>place_bid\<close> up to line 287. Either the request has ended (\<open>Inl\<close>, with what it
  returns), or it stands before line 288 (\<open>Inr\<close>) with the database as it is then and its
  local variables: the session, the reasons, \<open>item\<close>, \<open>highest_bid\<close> and the amount.
\<close>

type_synonym place_bid_locals = "session \<times> messages \<times> item \<times> bid option \<times> rat"

definition place_bid_begin ::
  "fraud_service \<Rightarrow> settings \<Rightarrow> int \<Rightarrow> db \<Rightarrow> session \<Rightarrow> request \<Rightarrow> item_id \<Rightarrow>
     (error + (db \<times> session \<times> messages)) + (db \<times> place_bid_locals)" where
  "place_bid_begin fs st now s sess req pk =
     (case get_item s pk of
        None \<Rightarrow> Inl (Inl Http404)
      | Some it \<Rightarrow>
          if \<not> method_is_post req then Inl (Inr (s, sess, []))
          else if seller it = user_pk (req_user req)
            then Inl (Inr (s, sess, [(Error_level, Cannot_bid_on_own_item)]))
          else if status it \<noteq> Active
            then Inl (Inr (s, sess, [(Error_level, Auction_no_longer_active)]))
          else if end_time it \<le> now
            then Inl (Inr (s, sess, [(Error_level, Auction_has_ended)]))
          else
            (case form_is_valid it (post_amount req) of
               Inl e \<Rightarrow> Inl (Inr (s, sess, [(Error_level, Form_error e)]))
             | Inr bid_amount \<Rightarrow>
                 (case checked_bid fs st now s sess (req_user req) it bid_amount of
                    (s3, sess1, rejection_reasons, should_reject_bid, b) \<Rightarrow>
                      if should_reject_bid
                      then Inl (Inr (delete_bid s3 b, sess1, rejection_reasons))
                      else (case commit_begin s3 it of
                              (s4, highest_bid) \<Rightarrow>
                                Inr (s4, sess1, rejection_reasons, it, highest_bid, bid_amount)))))"

text \<open>\<open>place_bid\<close> from line 288 to its end.\<close>

definition place_bid_end :: "db \<Rightarrow> place_bid_locals \<Rightarrow> db \<times> session \<times> messages" where
  "place_bid_end s locals =
     (case locals of
        (sess1, rejection_reasons, it, highest_bid, bid_amount) \<Rightarrow>
          (commit_end s it highest_bid, sess1,
           (Success_level, Bid_placed bid_amount) #
           filter (\<lambda>m. fst m = Warning_level) rejection_reasons))"

text \<open>A bid was admitted when the view reports success (line 297, reached only by step 6).\<close>

definition admitted :: "messages \<Rightarrow> bool" where
  "admitted msgs \<longleftrightarrow> list_ex (\<lambda>m. fst m = Success_level) msgs"

text \<open>
  Primary keys of the \<open>Bid\<close> table are unique and below the auto-increment counter.
\<close>

definition bid_pks_ok :: "db \<Rightarrow> bool" where
  "bid_pks_ok s \<longleftrightarrow>
     distinct (map bid_pk (db_bids s)) \<and> list_all (\<lambda>b. bid_pk b < next_bid_pk s) (db_bids s)"

text \<open>The part of the database the gate and the fraud service leave alone.\<close>

definition same_ledger :: "db \<Rightarrow> db \<Rightarrow> bool" where
  "same_ledger s s' \<longleftrightarrow>
     db_bids s' = db_bids s \<and> db_items s' = db_items s \<and> db_wallets s' = db_wallets s \<and>
     next_bid_pk s' = next_bid_pk s"

section \<open>The verify_captcha view (auctions/views.py, auctions/rapid_bidding.py)\<close>















section \<open>The buy_now view (auctions/views.py)\<close>

text \<open>
  \<open>with transaction.atomic()\<close>: an exception that leaves the block rolls back what the
  block wrote; a \<open>return\<close> inside the block commits.
\<close>

definition atomic :: "(db \<Rightarrow> db \<times> (error + 'a)) \<Rightarrow> db \<Rightarrow> db \<times> (error + 'a)" where
  "atomic body s = (case body s of (s', Inl e) \<Rightarrow> (s, Inl e) | (s', Inr r) \<Rightarrow> (s', Inr r))"

definition get_wallet :: "db \<Rightarrow> user_id \<Rightarrow> wallet option" where
  "get_wallet s u = find (\<lambda>w. wallet_user w = u) (db_wallets s)"

definition save_wallet :: "db \<Rightarrow> wallet \<Rightarrow> db" where
  "save_wallet s w =
     (if list_ex (\<lambda>x. wallet_user x = wallet_user w) (db_wallets s)
      then s\<lparr>db_wallets := map (\<lambda>x. if wallet_user x = wallet_user w then w else x) (db_wallets s)\<rparr>
      else s\<lparr>db_wallets := db_wallets s @ [w]\<rparr>)"

text \<open>
  \<open>Item.objects.filter(pk=pk, status='active', winner__isnull=True).update(status='sold',
  winner=request.user)\<close>: the new database and the number of rows updated.
\<close>

definition conditional_update :: "db \<Rightarrow> item_id \<Rightarrow> user_id \<Rightarrow> db \<times> nat" where
  "conditional_update s pk u =
     (let hit = (\<lambda>i. item_pk i = pk \<and> status i = Active \<and> winner i = None)
      in (s\<lparr>db_items := map (\<lambda>i. if hit i then i\<lparr>status := Sold, winner := Some u\<rparr> else i)
                             (db_items s)\<rparr>,
          length (filter hit (db_items s))))"

text \<open>
  The keyword arguments of the three \<open>WalletTransaction.objects.create\<close> calls of the view
  (lines 540-566). The rows of \<open>WalletTransaction\<close> and \<open>TransactionLog\<close> themselves are not
  part of the modelled database.
\<close>

definition buy_now_transaction_kwargs :: "string list" where
  "buy_now_transaction_kwargs =
     [''wallet'', ''transaction_type'', ''amount'', ''description'', ''reference'']"

text \<open>The body of the atomic block (lines 520-588).\<close>

definition purchase :: "user \<Rightarrow> item \<Rightarrow> wallet \<Rightarrow> rat \<Rightarrow> db \<Rightarrow> db \<times> (error + messages)" where
  "purchase usr it wlt price s =
     (let platform_tax = price * (5 / 100);
          total_amount = price;
          seller_receives = total_amount - platform_tax
      in case conditional_update s (item_pk it) (user_pk usr) of
           (s1, updated_count) \<Rightarrow>
             if updated_count = 0 then (s1, Inr [(Error_level, Someone_else_purchased)])
             else
               (let s2 = save_wallet s1 (wlt\<lparr>balance := balance wlt - total_amount\<rparr>)
                in case model_init WalletTransaction_fields buy_now_transaction_kwargs of
                     Inl e \<Rightarrow> (s2, Inl e)
                   | Inr _ \<Rightarrow>
                       (let seller_wallet =
                              (case get_wallet s2 (seller it) of
                                 Some w \<Rightarrow> w
                               | None \<Rightarrow> \<lparr>wallet_user = seller it, balance = 0\<rparr>);
                            s3 = save_wallet s2
                                   (seller_wallet\<lparr>balance := balance seller_wallet + seller_receives\<rparr>)
                        in case model_init WalletTransaction_fields buy_now_transaction_kwargs of
                             Inl e \<Rightarrow> (s3, Inl e)
                           | Inr _ \<Rightarrow>
                               (s3, Inr [(Success_level, Purchased total_amount),
                                        (Info_level, Platform_fee platform_tax seller_receives)]))))"

definition buy_now :: "int \<Rightarrow> db \<Rightarrow> user \<Rightarrow> item_id \<Rightarrow> db \<times> (error + messages)" where
  "buy_now now s usr pk =
     (case get_item s pk of
        None \<Rightarrow> (s, Inl Http404)
      | Some it \<Rightarrow>
          if status it \<noteq> Active then (s, Inr [(Error_level, Auction_no_longer_active)])
          else if end_time it \<le> now then (s, Inr [(Error_level, Auction_has_ended)])
          else
            (case buy_now_price it of
               None \<Rightarrow> (s, Inr [(Error_level, No_buy_now_price)])
             | Some price \<Rightarrow>
                 if price = 0 then (s, Inr [(Error_level, No_buy_now_price)])
                 else if seller it = user_pk usr then (s, Inr [(Error_level, Cannot_buy_own_item)])
                 else if list_ex (\<lambda>b. bid_item b = item_pk it) (db_bids s)
                   then (s, Inr [(Error_level, Bidding_has_started)])
                 else
                   (case get_wallet s (user_pk usr) of
                      None \<Rightarrow> (s, Inr [(Error_level, Wallet_needed)])
                    | Some wlt \<Rightarrow>
                        if balance wlt < price
                        then (s, Inr [(Error_level, Insufficient_wallet_balance price (balance wlt))])
                        else atomic (purchase usr it wlt price) s)))"

section \<open>Concrete states used by the witnesses and counterexamples\<close>

definition ex_item_cooldown :: bid_cooldown where
  "ex_item_cooldown =
     \<lparr>cd_user = 1, cd_item = Some 7, cooldown_type = Hard_cooldown,
      reason = Excessive_bidding (Bids_in_20_seconds 4), expires_at = 1000, created_at = 100,
      is_active = True, captcha_required = False, captcha_passed = False, failed_attempts = 0\<rparr>"

definition ex_global_cooldown :: bid_cooldown where
  "ex_global_cooldown =
     \<lparr>cd_user = 1, cd_item = None, cooldown_type = Soft_challenge,
      reason = High_velocity_across_auctions, expires_at = 800, created_at = 200,
      is_active = True, captcha_required = True, captcha_passed = False, failed_attempts = 0\<rparr>"

definition ex_cooldown_db :: db where
  "ex_cooldown_db =
     \<lparr>db_items = [], db_bids = [], db_cooldowns = [ex_item_cooldown, ex_global_cooldown],
      db_alerts = [], db_wallets = [], next_bid_pk = 1\<rparr>"

definition ex_settings :: settings where
  "ex_settings =
     \<lparr>AUCTION_ENDGAME_MULTIPLIER = 2, AUCTION_ENDGAME_WINDOW_MINUTES = 5,
      RAPID_BID_SOFT_THRESHOLD_2MIN = 5, RAPID_BID_SOFT_WINDOW_2MIN = 2,
      RAPID_BID_SOFT_THRESHOLD_5MIN = 8, RAPID_BID_SOFT_WINDOW_5MIN = 5,
      RAPID_BID_HARD_THRESHOLD_5MIN = 15, RAPID_BID_HARD_WINDOW_5MIN = 5,
      RAPID_BID_HARD_THRESHOLD_20SEC = 4, RAPID_BID_HARD_WINDOW_20SEC = 20,
      RAPID_BID_COOLDOWN_DURATION = 300,
      GLOBAL_VELOCITY_SOFT_WINDOW_MINUTES = 10, GLOBAL_VELOCITY_SOFT_THRESHOLD_BIDS = 10,
      GLOBAL_VELOCITY_SOFT_THRESHOLD_AUCTIONS = 3,
      GLOBAL_VELOCITY_HARD_WINDOW_MINUTES = 10, GLOBAL_VELOCITY_HARD_THRESHOLD_BIDS = 20,
      GLOBAL_VELOCITY_HARD_THRESHOLD_AUCTIONS = 5,
      MIN_INCREMENT_WINDOW_SECONDS = 120, MIN_INCREMENT_THRESHOLD_BIDS = 5,
      HIGH_VALUE_BID_THRESHOLD = 1000000, MIN_ACCOUNT_AGE_FOR_HIGH_BIDS = 7,
      RAPID_BIDDING_WINDOW_MINUTES = 5, RAPID_BIDDING_THRESHOLD = 10,
      BID_SNIPING_WINDOW_SECONDS = 30, BID_SNIPING_HISTORY_DAYS = 30,
      BID_SNIPING_THRESHOLD = 5, UNUSUAL_BID_MULTIPLIER = 3,
      BID_PATTERN_MIN_HISTORY = 5, BID_PATTERN_DEVIATION_MULTIPLIER = 5\<rparr>"

text \<open>Item 7, sold by user 2, ending at second 100000.\<close>

definition ex_item :: item where
  "ex_item =
     \<lparr>item_pk = 7, seller = 2, current_price = 1000, min_increment = 10, buy_now_price = None,
      item_created_at = 0, end_time = 100000, status = Active, bid_count = 0, winner = None\<rparr>"

definition ex_bid :: "nat \<Rightarrow> user_id \<Rightarrow> rat \<Rightarrow> int \<Rightarrow> bid" where
  "ex_bid k u a t =
     \<lparr>bid_pk = k, bid_item = 7, bidder = u, amount = a, bid_time = t, is_winning = False\<rparr>"

definition ex_soft_challenge :: "int \<Rightarrow> bool \<Rightarrow> bid_cooldown" where
  "ex_soft_challenge t active =
     \<lparr>cd_user = 1, cd_item = Some 7, cooldown_type = Soft_challenge,
      reason = Rapid_bidding (Bids_in_2_minutes 5), expires_at = t + 600, created_at = t,
      is_active = active, captcha_required = True, captcha_passed = \<not> active,
      failed_attempts = 0\<rparr>"

text \<open>
  User 1 was soft-challenged on item 7 at seconds 0 and 600 and has bid four times in the
  two minutes before second 1200.
\<close>

definition ex_escalation_db :: db where
  "ex_escalation_db =
     \<lparr>db_items = [ex_item],
      db_bids = [ex_bid 1 1 1100 1100, ex_bid 2 1 1200 1120, ex_bid 3 1 1300 1140,
                 ex_bid 4 1 1400 1160],
      db_cooldowns = [ex_soft_challenge 0 False, ex_soft_challenge 600 True],
      db_alerts = [], db_wallets = [], next_bid_pk = 5\<rparr>"



text \<open>
  A fraud service without OpenAI key and with silent shill detectors; user 1, an ordinary
  account; user 9, the same with the rapid-bidding bypass granted; a POST request.
\<close>

definition ex_fraud_service :: fraud_service where
  "ex_fraud_service =
     \<lparr>openai_enabled = False, shill_detectors = (\<lambda>s now it usr b. Inr []),
      get_ai_fraud_assessment = (\<lambda>b found. None)\<rparr>"

definition ex_user :: "user_id \<Rightarrow> bool \<Rightarrow> user" where
  "ex_user k bypass =
     \<lparr>user_pk = k, is_superuser = False, date_joined = 0, bypass_account_age_check = False,
      bypass_rapid_bidding_check = bypass, bypass_fraud_detection = False,
      bypass_all_restrictions = False\<rparr>"

definition ex_post :: "user \<Rightarrow> rat \<Rightarrow> request" where
  "ex_post usr amt = \<lparr>method_is_post = True, req_user = usr, post_amount = Some amt\<rparr>"

definition ex_session :: session where
  "ex_session = \<lparr>pending_bids = [], show_captcha = []\<rparr>"

text \<open>Item 7 at price 1000 with one bid, of user 3; optionally cooldown rows.\<close>

definition ex_ledger_db :: "bid_cooldown list \<Rightarrow> db" where
  "ex_ledger_db cds =
     \<lparr>db_items = [ex_item],
      db_bids = [\<lparr>bid_pk = 1, bid_item = 7, bidder = 3, amount = 1000, bid_time = 100,
                  is_winning = True\<rparr>],
      db_cooldowns = cds, db_alerts = [], db_wallets = [], next_bid_pk = 2\<rparr>"

text \<open>The state after bidder \<open>k\<close> has bid 1010 on item 7 in \<open>ex_ledger_db cds\<close> at second 50000.\<close>

definition ex_ledger_after :: "user_id \<Rightarrow> bid_cooldown list \<Rightarrow> db" where
  "ex_ledger_after k cds =
     \<lparr>db_items = [ex_item\<lparr>current_price := 1010, bid_count := 1\<rparr>],
      db_bids = [\<lparr>bid_pk = 1, bid_item = 7, bidder = 3, amount = 1000, bid_time = 100,
                  is_winning = False\<rparr>,
                 \<lparr>bid_pk = 2, bid_item = 7, bidder = k, amount = 1010, bid_time = 50000,
                  is_winning = True\<rparr>],
      db_cooldowns = cds, db_alerts = [], db_wallets = [], next_bid_pk = 3\<rparr>"

text \<open>A hard cooldown of user \<open>k\<close> on item 7, created at second 40000, expiring at 90000.\<close>

definition ex_hard_cooldown :: "user_id \<Rightarrow> bid_cooldown" where
  "ex_hard_cooldown k =
     \<lparr>cd_user = k, cd_item = Some 7, cooldown_type = Hard_cooldown,
      reason = Excessive_bidding (Bids_in_20_seconds 4), expires_at = 90000, created_at = 40000,
      is_active = True, captcha_required = False, captcha_passed = False, failed_attempts = 0\<rparr>"

text \<open>Item 7 at price 1020 after three bids of users 3, 4 and 5.\<close>

definition ex_three_bids_db :: db where
  "ex_three_bids_db =
     \<lparr>db_items = [ex_item\<lparr>current_price := 1020, bid_count := 3\<rparr>],
      db_bids = [\<lparr>bid_pk = 1, bid_item = 7, bidder = 3, amount = 1000, bid_time = 100,
                  is_winning = False\<rparr>,
                 \<lparr>bid_pk = 2, bid_item = 7, bidder = 4, amount = 1010, bid_time = 200,
                  is_winning = False\<rparr>,
                 \<lparr>bid_pk = 3, bid_item = 7, bidder = 5, amount = 1020, bid_time = 300,
                  is_winning = True\<rparr>],
      db_cooldowns = [], db_alerts = [], db_wallets = [], next_bid_pk = 4\<rparr>"

definition ex_unusual_bid :: bid where
  "ex_unusual_bid =
     \<lparr>bid_pk = 4, bid_item = 7, bidder = 1, amount = 20000, bid_time = 50000,
      is_winning = False\<rparr>"

text \<open>
  Item 8, sold by user 2 with a Buy Now price of 5000, without bids; users 1 and 3 hold
  10000 each.
\<close>

definition ex_buy_now_item :: item where
  "ex_buy_now_item =
     \<lparr>item_pk = 8, seller = 2, current_price = 1000, min_increment = 10,
      buy_now_price = Some 5000, item_created_at = 0, end_time = 100000, status = Active,
      bid_count = 0, winner = None\<rparr>"

definition ex_buy_now_db :: "bid list \<Rightarrow> db" where
  "ex_buy_now_db bs =
     \<lparr>db_items = [ex_buy_now_item], db_bids = bs, db_cooldowns = [], db_alerts = [],
      db_wallets = [\<lparr>wallet_user = 1, balance = 10000\<rparr>, \<lparr>wallet_user = 3, balance = 10000\<rparr>],
      next_bid_pk = 1\<rparr>"

text \<open>
  Endgame again: item 7 at price 1050 after five bids of user 1, each 10 above the one
  before, placed from second 99790 to 99870; user 1 has answered two soft challenges on the
  item, created at seconds 97000 and 98000.
\<close>

definition ex_increment_item :: item where
  "ex_increment_item = ex_item\<lparr>current_price := 1050, bid_count := 5\<rparr>"

definition ex_increment_db :: db where
  "ex_increment_db =
     \<lparr>db_items = [ex_increment_item],
      db_bids = [ex_bid 1 1 1010 99790, ex_bid 2 1 1020 99810, ex_bid 3 1 1030 99830,
                 ex_bid 4 1 1040 99850, (ex_bid 5 1 1050 99870)\<lparr>is_winning := True\<rparr>],
      db_cooldowns = [ex_soft_challenge 97000 False, ex_soft_challenge 98000 False],
      db_alerts = [], db_wallets = [], next_bid_pk = 6\<rparr>"

text \<open>
  Two requests on item 7 in \<open>ex_ledger_db []\<close>: user 1 bids 1010 at second 50000, user 4
  bids 1020 at second 50001. The database when the first request stands before line 288,
  then after the whole second request, then after the rest of the first.
\<close>

definition ex_race_bids :: "bool \<Rightarrow> bid list" where
  "ex_race_bids first_is_winning =
     [\<lparr>bid_pk = 1, bid_item = 7, bidder = 3, amount = 1000, bid_time = 100, is_winning = False\<rparr>,
      \<lparr>bid_pk = 2, bid_item = 7, bidder = 1, amount = 1010, bid_time = 50000,
       is_winning = first_is_winning\<rparr>]"

definition ex_race_second_bid :: bid where
  "ex_race_second_bid =
     \<lparr>bid_pk = 3, bid_item = 7, bidder = 4, amount = 1020, bid_time = 50001, is_winning = True\<rparr>"

definition ex_race_before_288 :: db where
  "ex_race_before_288 =
     \<lparr>db_items = [ex_item], db_bids = ex_race_bids False, db_cooldowns = [], db_alerts = [],
      db_wallets = [], next_bid_pk = 3\<rparr>"

definition ex_race_after_second :: db where
  "ex_race_after_second =
     \<lparr>db_items = [ex_item\<lparr>current_price := 1020, bid_count := 1\<rparr>],
      db_bids = ex_race_bids False @ [ex_race_second_bid], db_cooldowns = [], db_alerts = [],
      db_wallets = [], next_bid_pk = 4\<rparr>"

definition ex_race_final :: db where
  "ex_race_final =
     \<lparr>db_items = [ex_item\<lparr>current_price := 1010, bid_count := 1\<rparr>],
      db_bids = ex_race_bids True @ [ex_race_second_bid], db_cooldowns = [], db_alerts = [],
      db_wallets = [], next_bid_pk = 4\<rparr>"








section \<open>Verification\<close>


subsection \<open>CooldownStore\<close>

lemma newest_first_None: "newest_first cs = None \<longleftrightarrow> cs = []"
  by (induction cs) (auto split: option.splits)

lemma newest_first_Some:
  "newest_first cs = Some c \<Longrightarrow> c \<in> set cs \<and> (\<forall>d\<in>set cs. created_at d \<le> created_at c)"
proof (induction cs arbitrary: c)
  case Nil
  then show ?case by simp
next
  case (Cons a cs)
  show ?case
  proof (cases "newest_first cs")
    case None
    then have "cs = []" by (simp add: newest_first_None)
    with Cons.prems show ?thesis by simp
  next
    case (Some d)
    from Cons.IH [OF Some] have d: "d \<in> set cs" "\<forall>e\<in>set cs. created_at e \<le> created_at d"
      by simp_all
    show ?thesis
    proof (cases "created_at a < created_at d")
      case True
      with Some Cons.prems have "c = d" by simp
      with d True show ?thesis by auto
    next
      case False
      with Some Cons.prems have "c = a" by simp
      with d False show ?thesis by fastforce
    qed
  qed
qed

lemma cooldown_query_cleanup:
  "filter (cooldown_query now u it)
     (map (\<lambda>c. if is_active c \<and> expires_at c \<le> now then c\<lparr>is_active := False\<rparr> else c) cs)
   = filter (cooldown_query now u it) cs"
  by (induction cs) (auto simp: cooldown_query_def)

lemma get_active_cooldown_eq:
  "get_active_cooldown now s u it =
     (fst (cleanup_expired now s), newest_first (filter (cooldown_query now u it) (db_cooldowns s)))"
  by (simp add: get_active_cooldown_def cleanup_expired_def Let_def cooldown_query_cleanup)

text \<open>
  C9, as amended. \<open>get_active_cooldown\<close> gives no precedence to an item-scoped cooldown: among
  the user's cooldowns that are active, not yet expired and either on the given item or
  global, it returns one with the greatest \<open>created_at\<close>. Whatever it returns is a row of
  the table that belongs to the user, is active, expires in the future and is in scope; it
  returns nothing exactly when no such row exists.
\<close>

theorem get_active_cooldown_newest_in_scope:
  "(case snd (get_active_cooldown now s u it) of
      None \<Rightarrow> \<forall>d\<in>set (db_cooldowns s). \<not> cooldown_query now u it d
    | Some c \<Rightarrow>
        c \<in> set (db_cooldowns s) \<and> cd_user c = u \<and> is_active c \<and> now < expires_at c \<and>
        (cd_item c = it \<or> cd_item c = None) \<and>
        (\<forall>d\<in>set (db_cooldowns s). cooldown_query now u it d \<longrightarrow> created_at d \<le> created_at c))"
proof (cases "newest_first (filter (cooldown_query now u it) (db_cooldowns s))")
  case None
  then have "filter (cooldown_query now u it) (db_cooldowns s) = []"
    by (simp add: newest_first_None)
  then have "\<forall>d\<in>set (db_cooldowns s). \<not> cooldown_query now u it d"
    by (simp add: filter_empty_conv)
  with None show ?thesis by (simp add: get_active_cooldown_eq)
next
  case (Some c)
  from newest_first_Some [OF Some]
  have c: "c \<in> set (db_cooldowns s)" "cooldown_query now u it c"
    and newest: "\<forall>d\<in>set (db_cooldowns s). cooldown_query now u it d \<longrightarrow> created_at d \<le> created_at c"
    by auto
  from c(2) have "cd_user c = u \<and> is_active c \<and> now < expires_at c \<and> (cd_item c = it \<or> cd_item c = None)"
    by (auto simp: cooldown_query_def split: option.splits)
  with Some c(1) newest show ?thesis by (simp add: get_active_cooldown_eq)
qed

theorem get_active_cooldown_newest_in_scope_witness:
  "snd (get_active_cooldown 300 ex_cooldown_db 1 (Some 7)) = Some ex_global_cooldown \<and>
   ex_item_cooldown \<in> set (db_cooldowns ex_cooldown_db) \<and>
   cooldown_query 300 1 (Some 7) ex_item_cooldown \<and>
   created_at ex_item_cooldown \<le> created_at ex_global_cooldown"
  using get_active_cooldown_newest_in_scope
    [where now = 300 and s = ex_cooldown_db and u = 1 and it = "Some 7"]
  by (simp add: get_active_cooldown_eq ex_cooldown_db_def ex_item_cooldown_def
      ex_global_cooldown_def cooldown_query_def)

text \<open>
  C9 as stated fails: the user has an active item-scoped cooldown on item 7 and a more
  recently created active global one; the lookup for item 7 returns the global one.
\<close>

theorem get_active_cooldown_item_precedence_counterexample:
  "cooldown_query 300 1 (Some 7) ex_item_cooldown \<and> cd_item ex_item_cooldown = Some 7 \<and>
   cooldown_query 300 1 (Some 7) ex_global_cooldown \<and> cd_item ex_global_cooldown = None \<and>
   ex_item_cooldown \<in> set (db_cooldowns ex_cooldown_db) \<and>
   ex_global_cooldown \<in> set (db_cooldowns ex_cooldown_db) \<and>
   snd (get_active_cooldown 300 ex_cooldown_db 1 (Some 7)) = Some ex_global_cooldown \<and>
   snd (get_active_cooldown 300 ex_cooldown_db 1 (Some 7)) \<noteq> Some ex_item_cooldown"
  by (simp add: get_active_cooldown_eq ex_cooldown_db_def ex_item_cooldown_def
      ex_global_cooldown_def cooldown_query_def)

subsection \<open>RapidBiddingGate\<close>

text \<open>The thresholds of the example settings, outside the endgame and within it.\<close>

lemma scaled_threshold_values:
  "scaled_threshold 5 1 = 5" "scaled_threshold 8 1 = 8"
  "scaled_threshold 15 1 = 15" "scaled_threshold 4 1 = 4"
  "scaled_threshold 5 2 = 10" "scaled_threshold 8 2 = 16"
  "scaled_threshold 15 2 = 30" "scaled_threshold 4 2 = 8"
  by code_simp+

text \<open>The float product is not the exact one: \<open>math.ceil(25 * 1.12)\<close> is 29.\<close>

lemma scaled_threshold_inexact:
  "scaled_threshold 25 (112 / 100) = 29" "\<lceil>(25 :: rat) * (112 / 100)\<rceil> = 28"
  by code_simp+

lemma cleanup_expired_bids: "db_bids (fst (cleanup_expired now s)) = db_bids s"
  by (simp add: cleanup_expired_def Let_def)

lemma cleanup_expired_cooldowns:
  "db_cooldowns (fst (cleanup_expired now s)) =
     map (\<lambda>c. if is_active c \<and> expires_at c \<le> now then c\<lparr>is_active := False\<rparr> else c)
       (db_cooldowns s)"
  by (simp add: cleanup_expired_def Let_def)

lemma soft_challenge_filter_cleanup:
  "(\<lambda>c. cd_user c = u \<and> cd_item c = it \<and> cooldown_type c = Soft_challenge \<and>
         t \<le> created_at c) \<circ>
   (\<lambda>c. if is_active c \<and> expires_at c \<le> now then c\<lparr>is_active := False\<rparr> else c)
   = (\<lambda>c. cd_user c = u \<and> cd_item c = it \<and> cooldown_type c = Soft_challenge \<and>
           t \<le> created_at c)"
  by (auto simp: fun_eq_iff)

lemma recent_soft_challenges_cleanup:
  "recent_soft_challenges t (fst (cleanup_expired now s)) u it = recent_soft_challenges t s u it"
  by (simp add: recent_soft_challenges_def cleanup_expired_cooldowns filter_map
      soft_challenge_filter_cleanup)

lemma window_checks_cleanup:
  "soft_2min st t (fst (cleanup_expired now s)) u it = soft_2min st t s u it"
  "soft_5min st t (fst (cleanup_expired now s)) u it = soft_5min st t s u it"
  "hard_5min st t (fst (cleanup_expired now s)) u it = hard_5min st t s u it"
  "hard_20sec st t (fst (cleanup_expired now s)) u it = hard_20sec st t s u it"
  by (simp_all add: soft_2min_def soft_5min_def hard_5min_def hard_20sec_def user_item_bids_def
      cleanup_expired_bids)


lemma check_rapid_bidding_eq:
  "check_rapid_bidding st now s u it a =
     (case existing_cooldown_result now (snd (get_active_cooldown now s u (Some (item_pk it)))) of
        Some r \<Rightarrow> (fst (cleanup_expired now s), r)
      | None \<Rightarrow> velocity_checks st now (fst (cleanup_expired now s)) u it a)"
  by (simp add: check_rapid_bidding_def get_active_cooldown_eq)

text \<open>
  The soft-window branch (lines 63-78) reports the escalation. The user already has two
  \<open>soft_challenge\<close> records for this (user, item) created within the last hour, no existing
  cooldown answers the check, and one of the two soft windows is breached. Then
  \<open>check_rapid_bidding\<close> returns blocked with action \<open>hard_cooldown\<close> (duration twice the
  configured one), and the only record it adds to the cooldown table is one
  \<open>hard_cooldown\<close> for this user and item: no third \<open>soft_challenge\<close> is created.
\<close>

lemma third_soft_challenge_escalates:
  assumes two: "2 \<le> recent_soft_challenges now s u (Some (item_pk it))"
    and no_answer:
      "existing_cooldown_result now (snd (get_active_cooldown now s u (Some (item_pk it)))) = None"
    and breach: "fst (soft_2min st now s u it) \<or> fst (soft_5min st now s u it)"
  shows "snd (check_rapid_bidding st now s u it a) =
           (False, Act Hard_cooldown, Too_many_verification_attempts,
            Some (RAPID_BID_COOLDOWN_DURATION st * 2)) \<and>
         db_cooldowns (fst (check_rapid_bidding st now s u it a)) =
           db_cooldowns (fst (cleanup_expired now s)) @
             [\<lparr>cd_user = u, cd_item = Some (item_pk it), cooldown_type = Hard_cooldown,
               reason = Repeated_soft_challenge_violations,
               expires_at = now + RAPID_BID_COOLDOWN_DURATION st * 2, created_at = now,
               is_active = True, captcha_required = False, captcha_passed = False,
               failed_attempts = 0\<rparr>]"
proof -
  let ?s1 = "fst (cleanup_expired now s)"
  have esc: "create_soft_challenge st now ?s1 u (Some (item_pk it)) why =
      (create_hard_cooldown now ?s1 u (Some (item_pk it)) (RAPID_BID_COOLDOWN_DURATION st * 2)
         Repeated_soft_challenge_violations, True)" for why
    using two by (simp add: create_soft_challenge_def recent_soft_challenges_cleanup)
  have "check_rapid_bidding st now s u it a = velocity_checks st now ?s1 u it a"
    using no_answer by (simp add: check_rapid_bidding_eq)
  also have "\<dots> =
      (create_hard_cooldown now ?s1 u (Some (item_pk it)) (RAPID_BID_COOLDOWN_DURATION st * 2)
         Repeated_soft_challenge_violations,
       False, Act Hard_cooldown, Too_many_verification_attempts,
       Some (RAPID_BID_COOLDOWN_DURATION st * 2))"
    using breach by (auto simp: velocity_checks_def window_checks_cleanup esc Let_def)
  finally show ?thesis by (simp add: create_hard_cooldown_def)
qed

lemma third_soft_challenge_escalates_witness:
  "2 \<le> recent_soft_challenges 1200 ex_escalation_db 1 (Some (item_pk ex_item)) \<and>
   fst (soft_2min ex_settings 1200 ex_escalation_db 1 ex_item) \<and>
   snd (check_rapid_bidding ex_settings 1200 ex_escalation_db 1 ex_item 1500) =
     (False, Act Hard_cooldown, Too_many_verification_attempts, Some 600) \<and>
   map cooldown_type (db_cooldowns (fst (check_rapid_bidding ex_settings 1200 ex_escalation_db 1 ex_item 1500)))
     = [Soft_challenge, Soft_challenge, Hard_cooldown]"
proof -
  have two: "2 \<le> recent_soft_challenges 1200 ex_escalation_db 1 (Some (item_pk ex_item))"
    by (simp add: recent_soft_challenges_def ex_escalation_db_def ex_soft_challenge_def ex_item_def)
  have no_answer: "existing_cooldown_result 1200
      (snd (get_active_cooldown 1200 ex_escalation_db 1 (Some (item_pk ex_item)))) = None"
    by (simp add: get_active_cooldown_eq existing_cooldown_result_def ex_escalation_db_def
        ex_soft_challenge_def ex_item_def cooldown_query_def)
  have breach: "fst (soft_2min ex_settings 1200 ex_escalation_db 1 ex_item)"
    by (simp add: soft_2min_def check_window_def truthy_def count_since_def user_item_bids_def
        scaled_threshold_values endgame_multiplier_def is_auction_endgame_def ex_settings_def
        ex_escalation_db_def ex_bid_def ex_item_def Let_def)
  from third_soft_challenge_escalates [OF two no_answer, of ex_settings 1500] breach
  show ?thesis
    using two
    by (simp add: ex_settings_def cleanup_expired_cooldowns ex_escalation_db_def
        ex_soft_challenge_def)
qed

text \<open>
  The minimal-increment branch (lines 134-142) discards the result of
  \<open>_create_soft_challenge\<close>: with two soft challenges of the last hour it creates the hard
  cooldown as well, but still answers \<open>soft_challenge\<close>.
\<close>

lemma minimal_increment_escalation_unreported:
  assumes "\<not> fst (soft_2min st now s u it)" "\<not> fst (soft_5min st now s u it)"
    "\<not> fst (hard_5min st now s u it)" "\<not> fst (hard_20sec st now s u it)"
    "\<not> check_global_velocity_soft st now s u" "\<not> check_global_velocity_hard st now s u"
    "check_minimum_increment_pattern st now s u it a"
    "2 \<le> recent_soft_challenges now s u (Some (item_pk it))"
  shows "velocity_checks st now s u it a =
     (create_hard_cooldown now s u (Some (item_pk it)) (RAPID_BID_COOLDOWN_DURATION st * 2)
        Repeated_soft_challenge_violations,
      False, Act Soft_challenge, Unusual_bid_pattern_detected, None)"
  using assms by (simp add: velocity_checks_def create_soft_challenge_def)

text \<open>
  C4. With two \<open>soft_challenge\<close> records for the same (user, item) created within the last
  hour, a further threshold breach is to produce a \<open>hard_cooldown\<close> and the check is to
  answer blocked with action \<open>hard_cooldown\<close>. When the breach is the minimal-increment
  pattern, the code does the first and not the second. At second 99900, in the endgame of
  item 7, user 1 has two soft challenges of the last hour on the item, both answered, and
  five bids of the last two minutes, each 10 above the one before; no velocity window is
  breached. The sixth bid, of 1060, completes the minimal-increment pattern:
  \<open>check_rapid_bidding\<close> appends a \<open>hard_cooldown\<close> of 600 seconds for the user and the
  item, and answers blocked with action \<open>soft_challenge\<close> and no time to wait.
\<close>

theorem minimal_increment_third_event_answers_soft_challenge:
  "recent_soft_challenges 99900 ex_increment_db 1 (Some (item_pk ex_increment_item)) = 2 \<and>
   existing_cooldown_result 99900
     (snd (get_active_cooldown 99900 ex_increment_db 1 (Some (item_pk ex_increment_item)))) = None \<and>
   \<not> fst (soft_2min ex_settings 99900 ex_increment_db 1 ex_increment_item) \<and>
   \<not> fst (soft_5min ex_settings 99900 ex_increment_db 1 ex_increment_item) \<and>
   check_minimum_increment_pattern ex_settings 99900 ex_increment_db 1 ex_increment_item 1060 \<and>
   snd (check_rapid_bidding ex_settings 99900 ex_increment_db 1 ex_increment_item 1060) =
     (False, Act Soft_challenge, Unusual_bid_pattern_detected, None) \<and>
   db_cooldowns (fst (check_rapid_bidding ex_settings 99900 ex_increment_db 1 ex_increment_item 1060)) =
     [ex_soft_challenge 97000 False, ex_soft_challenge 98000 False,
      \<lparr>cd_user = 1, cd_item = Some 7, cooldown_type = Hard_cooldown,
       reason = Repeated_soft_challenge_violations, expires_at = 100500, created_at = 99900,
       is_active = True, captcha_required = False, captcha_passed = False,
       failed_attempts = 0\<rparr>]"
proof -
  note ex = ex_increment_db_def ex_increment_item_def ex_item_def ex_bid_def
    ex_soft_challenge_def ex_settings_def
  let ?s = ex_increment_db and ?it = ex_increment_item
  have two: "recent_soft_challenges 99900 ?s 1 (Some (item_pk ?it)) = 2"
    by (simp add: recent_soft_challenges_def ex)
  have none: "existing_cooldown_result 99900
      (snd (get_active_cooldown 99900 ?s 1 (Some (item_pk ?it)))) = None"
    by (simp add: get_active_cooldown_eq existing_cooldown_result_def cooldown_query_def ex)
  have endgame: "endgame_multiplier ex_settings 99900 ?it = 2"
    by (simp add: endgame_multiplier_def is_auction_endgame_def ex)
  have s2: "\<not> fst (soft_2min ex_settings 99900 ?s 1 ?it)"
    by (simp add: soft_2min_def endgame check_window_def truthy_def count_since_def
        user_item_bids_def Let_def)
      (simp add: ex scaled_threshold_values)
  have s5: "\<not> fst (soft_5min ex_settings 99900 ?s 1 ?it)"
    by (simp add: soft_5min_def endgame check_window_def truthy_def count_since_def
        user_item_bids_def Let_def)
      (simp add: ex scaled_threshold_values)
  have h5: "\<not> fst (hard_5min ex_settings 99900 ?s 1 ?it)"
    by (simp add: hard_5min_def endgame check_window_def truthy_def count_since_def
        user_item_bids_def Let_def)
      (simp add: ex scaled_threshold_values)
  have h20: "\<not> fst (hard_20sec ex_settings 99900 ?s 1 ?it)"
    by (simp add: hard_20sec_def endgame check_window_def truthy_def count_since_def
        user_item_bids_def Let_def)
      (simp add: ex scaled_threshold_values)
  have gs: "\<not> check_global_velocity_soft ex_settings 99900 ?s 1"
    by (simp add: check_global_velocity_soft_def Let_def ex)
  have gh: "\<not> check_global_velocity_hard ex_settings 99900 ?s 1"
    by (simp add: check_global_velocity_hard_def Let_def ex)
  have mi: "check_minimum_increment_pattern ex_settings 99900 ?s 1 ?it 1060"
    by (simp add: check_minimum_increment_pattern_def Let_def ex)
  have clean: "fst (cleanup_expired 99900 ?s) = ?s"
    by (simp add: cleanup_expired_def ex)
  have "check_rapid_bidding ex_settings 99900 ?s 1 ?it 1060 =
      velocity_checks ex_settings 99900 ?s 1 ?it 1060"
    using none by (simp add: check_rapid_bidding_eq clean)
  also have "\<dots> =
      (create_hard_cooldown 99900 ?s 1 (Some (item_pk ?it))
         (RAPID_BID_COOLDOWN_DURATION ex_settings * 2) Repeated_soft_challenge_violations,
       False, Act Soft_challenge, Unusual_bid_pattern_detected, None)"
    using two by (intro minimal_increment_escalation_unreported s2 s5 h5 h20 gs gh mi) simp
  finally have run: "check_rapid_bidding ex_settings 99900 ?s 1 ?it 1060 =
      (create_hard_cooldown 99900 ?s 1 (Some (item_pk ?it))
         (RAPID_BID_COOLDOWN_DURATION ex_settings * 2) Repeated_soft_challenge_violations,
       False, Act Soft_challenge, Unusual_bid_pattern_detected, None)" .
  have cds: "db_cooldowns (fst (check_rapid_bidding ex_settings 99900 ?s 1 ?it 1060)) =
      [ex_soft_challenge 97000 False, ex_soft_challenge 98000 False,
       \<lparr>cd_user = 1, cd_item = Some 7, cooldown_type = Hard_cooldown,
        reason = Repeated_soft_challenge_violations, expires_at = 100500, created_at = 99900,
        is_active = True, captcha_required = False, captcha_passed = False,
        failed_attempts = 0\<rparr>]"
    unfolding run
    by (simp add: create_hard_cooldown_def ex_increment_db_def ex_increment_item_def ex_item_def
        ex_settings_def)
  from two none s2 s5 mi run cds show ?thesis by simp
qed







subsection \<open>What the gate and the fraud service leave unchanged\<close>

lemma same_ledger_refl: "same_ledger s s"
  by (simp add: same_ledger_def)

lemma same_ledger_trans: "same_ledger s s' \<Longrightarrow> same_ledger s' s'' \<Longrightarrow> same_ledger s s''"
  by (simp add: same_ledger_def)

lemma same_ledger_cleanup: "same_ledger s (fst (cleanup_expired now s))"
  by (simp add: same_ledger_def cleanup_expired_def Let_def)

lemma same_ledger_hard: "same_ledger s (create_hard_cooldown now s u it d why)"
  by (simp add: same_ledger_def create_hard_cooldown_def)

lemma same_ledger_soft: "same_ledger s (fst (create_soft_challenge st now s u it why))"
  by (simp add: same_ledger_def create_soft_challenge_def create_hard_cooldown_def)

lemma same_ledger_velocity: "same_ledger s (fst (velocity_checks st now s u it a))"
  by (simp add: velocity_checks_def Let_def case_prod_beta same_ledger_soft same_ledger_hard
      same_ledger_refl)

lemma same_ledger_gate: "same_ledger s (fst (check_rapid_bidding st now s u it a))"
proof (cases "existing_cooldown_result now (snd (get_active_cooldown now s u (Some (item_pk it))))")
  case None
  then show ?thesis
    using same_ledger_trans [OF same_ledger_cleanup same_ledger_velocity]
    by (simp add: check_rapid_bidding_eq)
next
  case (Some r)
  then show ?thesis by (simp add: check_rapid_bidding_eq same_ledger_cleanup)
qed

lemma same_ledger_rapid_step:
  "same_ledger s (fst (rapid_bidding_step st now s sess usr it a))"
  by (simp add: rapid_bidding_step_def case_prod_beta same_ledger_refl same_ledger_gate)

lemma analyze_bid_alerts_only:
  "analyze_bid fs st now s it usr b = Inr (found, s') \<Longrightarrow> s' = s\<lparr>db_alerts := db_alerts s @ found\<rparr>"
  by (auto simp: analyze_bid_def Let_def split: sum.splits option.splits if_splits)

lemma same_ledger_fraud_step: "same_ledger s (fst (fraud_step fs st now s it usr b))"
  by (auto simp: fraud_step_def same_ledger_def split: sum.splits prod.splits
      dest!: analyze_bid_alerts_only)

subsection \<open>Committing a bid\<close>

lemma highest_first_None: "highest_first bs = None \<longleftrightarrow> bs = []"
  by (induction bs) (auto split: option.splits)

lemma highest_first_Some:
  "highest_first bs = Some h \<Longrightarrow> h \<in> set bs \<and> (\<forall>b\<in>set bs. amount b \<le> amount h)"
proof (induction bs arbitrary: h)
  case Nil
  then show ?case by simp
next
  case (Cons a bs)
  show ?case
  proof (cases "highest_first bs")
    case None
    then have "bs = []" by (simp add: highest_first_None)
    with Cons.prems show ?thesis by simp
  next
    case (Some g)
    from Cons.IH [OF Some] have g: "g \<in> set bs" "\<forall>b\<in>set bs. amount b \<le> amount g"
      by simp_all
    show ?thesis
    proof (cases "amount a < amount g")
      case True
      with Some Cons.prems have "h = g" by simp
      with g True show ?thesis by auto
    next
      case False
      with Some Cons.prems have "h = a" by simp
      with g False show ?thesis by fastforce
    qed
  qed
qed

lemma filter_unique_key:
  "distinct (map f xs) \<Longrightarrow> x \<in> set xs \<Longrightarrow> filter (\<lambda>y. f y = f x) xs = [x]"
proof (induction xs)
  case Nil
  then show ?case by simp
next
  case (Cons a xs)
  show ?case
  proof (cases "a = x")
    case True
    with Cons.prems have "f x \<notin> f ` set xs" by simp
    then have "\<forall>y\<in>set xs. f y \<noteq> f x" by (metis imageI)
    then have "filter (\<lambda>y. f y = f x) xs = []" by (simp add: filter_empty_conv)
    with True show ?thesis by simp
  next
    case False
    with Cons.prems have "x \<in> set xs" "f a \<noteq> f x" "distinct (map f xs)" by auto
    with Cons.IH show ?thesis by simp
  qed
qed

lemma find_map_update:
  assumes "\<And>x. P (f x) = P x"
  shows "find P (map f xs) = map_option f (find P xs)"
  using assms by (induction xs) auto

lemma update_auction_state_winner:
  assumes pks: "distinct (map bid_pk (db_bids s))"
    and some: "\<exists>b\<in>set (db_bids s). bid_item b = item_pk it"
  shows "\<exists>w. filter (\<lambda>b. bid_item b = item_pk it \<and> is_winning b)
                (db_bids (update_auction_state s it)) = [w] \<and>
             (\<forall>b\<in>set (db_bids (update_auction_state s it)).
                bid_item b = item_pk it \<longrightarrow> amount b \<le> amount w) \<and>
             (\<forall>i\<in>set (db_items (update_auction_state s it)).
                item_pk i = item_pk it \<longrightarrow> current_price i = amount w)"
proof -
  define clear :: "bid \<Rightarrow> bid" where
    "clear = (\<lambda>b. if bid_item b = item_pk it then b\<lparr>is_winning := False\<rparr> else b)"
  define cleared where "cleared = map clear (db_bids s)"
  define item_bids where "item_bids = filter (\<lambda>b. bid_item b = item_pk it) cleared"
  have pks': "distinct (map bid_pk cleared)"
  proof -
    have "map bid_pk cleared = map bid_pk (db_bids s)"
      by (simp add: cleared_def clear_def)
    with pks show ?thesis by simp
  qed
  have not_winning: "\<not> is_winning b" if "b \<in> set cleared" "bid_item b = item_pk it" for b
    using that by (auto simp: cleared_def clear_def split: if_splits)
  from some obtain b0 where b0: "b0 \<in> set (db_bids s)" "bid_item b0 = item_pk it" by blast
  then have "clear b0 \<in> set cleared" "bid_item (clear b0) = item_pk it"
    by (simp_all add: cleared_def clear_def)
  then have "clear b0 \<in> set item_bids" by (simp add: item_bids_def)
  then have "item_bids \<noteq> []" by auto
  then obtain h where h: "highest_first item_bids = Some h"
    by (cases "highest_first item_bids") (simp_all add: highest_first_None)
  from highest_first_Some [OF h]
  have h_in: "h \<in> set cleared" and h_item: "bid_item h = item_pk it"
    and h_max: "\<forall>b\<in>set cleared. bid_item b = item_pk it \<longrightarrow> amount b \<le> amount h"
    by (auto simp: item_bids_def)
  define mark :: "bid \<Rightarrow> bid" where "mark = (\<lambda>b. if bid_pk b = bid_pk h then b\<lparr>is_winning := True\<rparr> else b)"
  have state: "update_auction_state s it =
      s\<lparr>db_bids := map mark cleared,
        db_items := map (\<lambda>i. if item_pk i = item_pk it
                              then i\<lparr>current_price := amount h, bid_count := bid_count it + 1\<rparr>
                              else i) (db_items s)\<rparr>"
    using h
    by (simp add: update_auction_state_def Let_def cleared_def [symmetric] clear_def [symmetric]
        item_bids_def [symmetric] mark_def [symmetric])
  have same_pk: "b = h" if "b \<in> set cleared" "bid_pk b = bid_pk h" for b
    using that h_in pks' by (meson distinct_map inj_onD)
  have "filter (\<lambda>b. bid_item b = item_pk it \<and> is_winning b) (map mark cleared) =
        map mark (filter (\<lambda>b. bid_pk b = bid_pk h) cleared)"
    unfolding filter_map
  proof (rule arg_cong [where f = "map mark"], rule filter_cong [OF refl])
    fix b assume b: "b \<in> set cleared"
    show "((\<lambda>b. bid_item b = item_pk it \<and> is_winning b) \<circ> mark) b = (bid_pk b = bid_pk h)"
      using not_winning [OF b] same_pk [OF b] h_item by (auto simp: mark_def)
  qed
  also have "\<dots> = [mark h]"
    using filter_unique_key [OF pks' h_in] by simp
  finally have one: "filter (\<lambda>b. bid_item b = item_pk it \<and> is_winning b) (map mark cleared) = [mark h]" .
  have amt: "amount (mark h) = amount h" by (simp add: mark_def)
  have highest: "\<forall>b\<in>set (map mark cleared). bid_item b = item_pk it \<longrightarrow> amount b \<le> amount h"
    using h_max by (auto simp: mark_def)
  show ?thesis
    using one highest amt by (auto simp: state)
qed

lemma admitted_append: "admitted (xs @ ys) \<longleftrightarrow> admitted xs \<or> admitted ys"
  by (simp add: admitted_def)

lemma rapid_bidding_step_not_admitted:
  "\<not> admitted (snd (snd (snd (rapid_bidding_step st now s sess usr it a))))"
  by (simp add: rapid_bidding_step_def case_prod_beta admitted_def)

lemma account_age_step_not_admitted: "\<not> admitted (snd (account_age_step st now usr a))"
  by (simp add: account_age_step_def Let_def admitted_def)

lemma fraud_step_not_admitted: "\<not> admitted (snd (snd (fraud_step fs st now s it usr b)))"
  by (auto simp: fraud_step_def admitted_def split: sum.splits prod.splits)

lemma get_item_Some: "get_item s pk = Some it \<Longrightarrow> it \<in> set (db_items s) \<and> item_pk it = pk"
  by (auto simp: get_item_def find_Some_iff)

text \<open>
  The valid-form path saves one new row and then either deletes it again (rejection) or
  updates the auction state (admission); nothing else touches bids and items.
\<close>

lemma place_valid_bid_outcome:
  assumes run: "place_valid_bid fs st now s sess usr it a = (s', sess', msgs)"
  defines "b \<equiv> \<lparr>bid_pk = next_bid_pk s, bid_item = item_pk it, bidder = user_pk usr,
                  amount = a, bid_time = now, is_winning = False\<rparr>"
  shows "\<exists>s3. db_bids s3 = db_bids s @ [b] \<and> db_items s3 = db_items s \<and>
              db_wallets s3 = db_wallets s \<and>
              (if admitted msgs then s' = update_auction_state s3 it else s' = delete_bid s3 b)"
proof -
  let ?r1 = "rapid_bidding_step st now s sess usr it a"
  let ?s1 = "fst ?r1"
  let ?s2 = "fst (save_bid now ?s1 it usr a)"
  let ?s3 = "fst (fraud_step fs st now ?s2 it usr b)"
  have l1: "same_ledger s ?s1" by (rule same_ledger_rapid_step)
  then have saved: "snd (save_bid now ?s1 it usr a) = b"
    "db_bids ?s2 = db_bids s @ [b]" "db_items ?s2 = db_items s" "db_wallets ?s2 = db_wallets s"
    by (simp_all add: save_bid_def Let_def b_def same_ledger_def)
  have l3: "same_ledger ?s2 ?s3" by (rule same_ledger_fraud_step)
  with saved have s3: "db_bids ?s3 = db_bids s @ [b]" "db_items ?s3 = db_items s"
    "db_wallets ?s3 = db_wallets s"
    by (simp_all add: same_ledger_def)
  let ?reasons = "snd (snd (snd ?r1)) @ snd (account_age_step st now usr a) @
                  snd (snd (fraud_step fs st now ?s2 it usr b))"
  have reasons: "\<not> admitted ?reasons"
    by (simp add: admitted_append rapid_bidding_step_not_admitted account_age_step_not_admitted
        fraud_step_not_admitted)
  have "(s' = delete_bid ?s3 b \<and> msgs = ?reasons) \<or>
        (s' = update_auction_state ?s3 it \<and>
         msgs = (Success_level, Bid_placed a) # filter (\<lambda>m. fst m = Warning_level) ?reasons)"
    using run saved(1)
    by (auto simp: place_valid_bid_def case_prod_beta Let_def split: if_splits)
  then have "if admitted msgs then s' = update_auction_state ?s3 it else s' = delete_bid ?s3 b"
    using reasons by (auto simp: admitted_def)
  with s3 show ?thesis by blast
qed

text \<open>
  One request alone. Whenever \<open>place_bid\<close> admits a bid on an item and no statement of
  another request runs between its own (primary keys of the bid table being unique),
  afterwards exactly one bid of that item has \<open>is_winning\<close> set, no bid of the item has a
  higher amount than it, and the item's \<open>current_price\<close> is its amount.
\<close>

lemma admitted_bid_winner_is_highest:
  assumes run: "place_bid fs st now s sess req pk = Inr (s', sess', msgs)"
    and ok: "admitted msgs"
    and pks: "bid_pks_ok s"
  shows "\<exists>w i. filter (\<lambda>b. bid_item b = pk \<and> is_winning b) (db_bids s') = [w] \<and>
               (\<forall>b\<in>set (db_bids s'). bid_item b = pk \<longrightarrow> amount b \<le> amount w) \<and>
               get_item s' pk = Some i \<and> current_price i = amount w"
proof -
  from run obtain it where it: "get_item s pk = Some it"
    by (cases "get_item s pk") (simp_all add: place_bid_def)
  then have it_pk: "item_pk it = pk" and it_in: "it \<in> set (db_items s)"
    by (simp_all add: get_item_Some)
  from run ok it obtain a where valid:
    "place_valid_bid fs st now s sess (req_user req) it a = (s', sess', msgs)"
    by (auto simp: place_bid_def admitted_def split: if_splits sum.splits)
  define b where "b = \<lparr>bid_pk = next_bid_pk s, bid_item = item_pk it,
      bidder = user_pk (req_user req), amount = a, bid_time = now, is_winning = False\<rparr>"
  from place_valid_bid_outcome [OF valid] ok obtain s3 where
    s3: "db_bids s3 = db_bids s @ [b]" "db_items s3 = db_items s"
    and s': "s' = update_auction_state s3 it"
    by (auto simp: b_def)
  from pks have "distinct (map bid_pk (db_bids s3))"
    by (auto simp: s3 bid_pks_ok_def b_def list_all_iff)
  moreover have "\<exists>x\<in>set (db_bids s3). bid_item x = item_pk it"
    by (simp add: s3 b_def)
  ultimately obtain w where w:
    "filter (\<lambda>b. bid_item b = item_pk it \<and> is_winning b) (db_bids s') = [w]"
    "\<forall>b\<in>set (db_bids s'). bid_item b = item_pk it \<longrightarrow> amount b \<le> amount w"
    "\<forall>i\<in>set (db_items s'). item_pk i = item_pk it \<longrightarrow> current_price i = amount w"
    using update_auction_state_winner [of s3 it] unfolding s' by blast
  have "db_items s' = map (\<lambda>i. if item_pk i = item_pk it
      then i\<lparr>current_price := (case highest_first (filter (\<lambda>b. bid_item b = item_pk it)
                (map (\<lambda>b. if bid_item b = item_pk it then b\<lparr>is_winning := False\<rparr> else b)
                   (db_bids s3))) of None \<Rightarrow> current_price it | Some h \<Rightarrow> amount h),
             bid_count := bid_count it + 1\<rparr>
      else i) (db_items s)"
    by (simp add: s' update_auction_state_def Let_def s3)
  then have "get_item s' pk \<noteq> None"
    using it by (simp add: get_item_def find_map_update it_pk)
  then obtain i where i: "get_item s' pk = Some i" by blast
  with w(3) have "current_price i = amount w"
    using get_item_Some [OF i] by (simp add: it_pk)
  with w i show ?thesis by (auto simp: it_pk)
qed

subsection \<open>Evaluation of the concrete runs\<close>

lemmas gate_defs =
  check_rapid_bidding_eq get_active_cooldown_eq existing_cooldown_result_def cooldown_query_def
  cleanup_expired_def velocity_checks_def soft_2min_def soft_5min_def hard_5min_def hard_20sec_def
  check_window_def truthy_def count_since_def user_item_bids_def scaled_threshold_values
  endgame_multiplier_def is_auction_endgame_def check_global_velocity_soft_def
  check_global_velocity_hard_def check_minimum_increment_pattern_def create_soft_challenge_def
  create_hard_cooldown_def recent_soft_challenges_def

lemmas fraud_defs =
  analyze_bid_def detect_rapid_bidding_def detect_bid_sniping_def is_snipe_def
  detect_unusual_bid_amount_def avg_amount_def detect_new_account_high_value_def
  detect_self_bidding_def detect_bid_pattern_anomaly_def order_by_def Bid_fields_def
  new_alert_def get_item_def

lemmas view_defs =
  place_bid_def place_valid_bid_def form_is_valid_def clean_amount_def rapid_bidding_step_def
  account_age_step_def save_bid_def fraud_step_def delete_bid_def update_auction_state_def
  bypass_all_def bypass_rapid_bidding_def bypass_account_age_def bypass_fraud_def
  session_set_def

lemmas ex_defs =
  ex_fraud_service_def ex_user_def ex_post_def ex_session_def ex_ledger_db_def
  ex_ledger_after_def ex_hard_cooldown_def ex_item_def ex_settings_def

lemma ex_get_item: "get_item (ex_ledger_db cds) 7 = Some ex_item"
  by (simp add: get_item_def ex_ledger_db_def ex_item_def)

lemma ex_bid_pks_ok: "bid_pks_ok (ex_ledger_db cds)"
  by (simp add: bid_pks_ok_def ex_ledger_db_def)

text \<open>
  An ordinary user bids 1010 on item 7 (price 1000, minimum increment 10) at second 50000:
  the bid is admitted.
\<close>

lemma ex_place_bid_run:
  "place_bid ex_fraud_service ex_settings 50000 (ex_ledger_db []) ex_session
     (ex_post (ex_user 1 False) 1010) 7
   = Inr (ex_ledger_after 1 [], ex_session, [(Success_level, Bid_placed 1010)])"
  by (simp add: gate_defs fraud_defs view_defs ex_defs Let_def)

lemma admitted_bid_winner_is_highest_witness:
  "bid_pks_ok (ex_ledger_db []) \<and> admitted [(Success_level, Bid_placed 1010)] \<and>
   (\<exists>w i. filter (\<lambda>b. bid_item b = 7 \<and> is_winning b) (db_bids (ex_ledger_after 1 [])) = [w] \<and>
          (\<forall>b\<in>set (db_bids (ex_ledger_after 1 [])). bid_item b = 7 \<longrightarrow> amount b \<le> amount w) \<and>
          get_item (ex_ledger_after 1 []) 7 = Some i \<and> current_price i = amount w)"
proof -
  have ok: "admitted [(Success_level, Bid_placed 1010)]" by (simp add: admitted_def)
  from admitted_bid_winner_is_highest [OF ex_place_bid_run ok ex_bid_pks_ok] ok ex_bid_pks_ok
  show ?thesis by blast
qed

subsection \<open>Two requests at once\<close>

text \<open>Run without interruption, the statements of step 6 and the two halves are the view.\<close>

lemma update_auction_state_statements:
  "update_auction_state s it = (case commit_begin s it of (s1, hb) \<Rightarrow> commit_end s1 it hb)"
  by (simp add: update_auction_state_def commit_begin_def commit_end_def clear_winning_def
      highest_bid_of_def save_is_winning_def save_price_and_count_def Let_def
      split: option.split)

lemma place_valid_bid_checked:
  "place_valid_bid fs st now s sess usr it a =
     (case checked_bid fs st now s sess usr it a of
        (s3, sess1, reasons, rejected, b) \<Rightarrow>
          if rejected then (delete_bid s3 b, sess1, reasons)
          else (update_auction_state s3 it, sess1,
                (Success_level, Bid_placed a) # filter (\<lambda>m. fst m = Warning_level) reasons))"
  by (simp add: place_valid_bid_def checked_bid_def Let_def split: prod.split)

lemma place_bid_statements:
  "place_bid fs st now s sess req pk =
     (case place_bid_begin fs st now s sess req pk of
        Inl r \<Rightarrow> r
      | Inr (s4, locals) \<Rightarrow> Inr (place_bid_end s4 locals))"
  by (simp add: place_bid_def place_bid_begin_def place_bid_end_def place_valid_bid_checked
      update_auction_state_statements split: option.split sum.split prod.split)

lemma ex_race_second_request:
  "place_bid ex_fraud_service ex_settings 50001 ex_race_before_288 ex_session
     (ex_post (ex_user 4 False) 1020) 7
   = Inr (ex_race_after_second, ex_session, [(Success_level, Bid_placed 1020)])"
  by (simp add: gate_defs fraud_defs view_defs ex_defs ex_race_before_288_def
      ex_race_after_second_def ex_race_bids_def ex_race_second_bid_def Let_def)

text \<open>
  C1. Every admission is to leave at most one winning bid on the item, the highest one, with
  \<open>current_price\<close> equal to its amount. Two admissions that overlap do not. On item 7 at
  price 1000, user 1 bids 1010: the request saves the bid, clears \<open>is_winning\<close> on the
  item's bids and reads the highest bid, its own. Before its next statement, user 4 bids
  1020: the item row still says 1000, so the bid is valid; it is admitted, marked winning,
  and the price becomes 1020. The first request then marks the bid it had read as winning
  and saves its own copy of the item. Both bids were admitted; afterwards the bids of 1010
  and of 1020 both have \<open>is_winning\<close> set, \<open>current_price\<close> is 1010 and \<open>bid_count\<close> has
  grown by one.
\<close>

theorem overlapping_admissions_leave_two_winning_bids:
  "place_bid_begin ex_fraud_service ex_settings 50000 (ex_ledger_db []) ex_session
     (ex_post (ex_user 1 False) 1010) 7
     = Inr (ex_race_before_288, ex_session, [], ex_item,
            Some \<lparr>bid_pk = 2, bid_item = 7, bidder = 1, amount = 1010, bid_time = 50000,
                  is_winning = False\<rparr>, 1010) \<and>
   place_bid ex_fraud_service ex_settings 50001 ex_race_before_288 ex_session
     (ex_post (ex_user 4 False) 1020) 7
     = Inr (ex_race_after_second, ex_session, [(Success_level, Bid_placed 1020)]) \<and>
   place_bid_end ex_race_after_second
     (ex_session, [], ex_item,
      Some \<lparr>bid_pk = 2, bid_item = 7, bidder = 1, amount = 1010, bid_time = 50000,
            is_winning = False\<rparr>, 1010)
     = (ex_race_final, ex_session, [(Success_level, Bid_placed 1010)]) \<and>
   map (\<lambda>b. (bid_pk b, amount b))
     (filter (\<lambda>b. bid_item b = 7 \<and> is_winning b) (db_bids ex_race_final))
     = [(2, 1010), (3, 1020)] \<and>
   map (\<lambda>i. (current_price i, bid_count i)) (db_items ex_race_final) = [(1010, 1)]"
proof -
  have first: "place_bid_begin ex_fraud_service ex_settings 50000 (ex_ledger_db []) ex_session
      (ex_post (ex_user 1 False) 1010) 7
      = Inr (ex_race_before_288, ex_session, [], ex_item,
             Some \<lparr>bid_pk = 2, bid_item = 7, bidder = 1, amount = 1010, bid_time = 50000,
                   is_winning = False\<rparr>, 1010)"
    by (simp add: place_bid_begin_def checked_bid_def commit_begin_def clear_winning_def
        highest_bid_of_def gate_defs fraud_defs view_defs ex_defs ex_race_before_288_def
        ex_race_bids_def Let_def)
  have rest: "place_bid_end ex_race_after_second
      (ex_session, [], ex_item,
       Some \<lparr>bid_pk = 2, bid_item = 7, bidder = 1, amount = 1010, bid_time = 50000,
             is_winning = False\<rparr>, 1010)
      = (ex_race_final, ex_session, [(Success_level, Bid_placed 1010)])"
    by (simp add: place_bid_end_def commit_end_def save_is_winning_def save_price_and_count_def
        ex_race_after_second_def ex_race_final_def ex_race_bids_def ex_race_second_bid_def
        ex_item_def)
  have winners: "map (\<lambda>b. (bid_pk b, amount b))
      (filter (\<lambda>b. bid_item b = 7 \<and> is_winning b) (db_bids ex_race_final))
      = [(2, 1010), (3, 1020)]"
    by (simp add: ex_race_final_def ex_race_bids_def ex_race_second_bid_def)
  have price: "map (\<lambda>i. (current_price i, bid_count i)) (db_items ex_race_final) = [(1010, 1)]"
    by (simp add: ex_race_final_def ex_item_def)
  from first ex_race_second_request rest winners price show ?thesis by blast
qed

subsection \<open>Structural validation\<close>




subsection \<open>Self-bidding\<close>

text \<open>
  C7, as amended. A POST by the seller of the item is rejected by \<open>place_bid\<close> with
  "You cannot bid on your own item!" before anything is written: no bid is saved, the fraud
  service is not called and no alert is created for the attempt. The detector itself, given
  a bid whose bidder is the item's seller, builds one unresolved alert of type
  \<open>self_bidding\<close> and severity \<open>critical\<close>.
\<close>

theorem self_bid_rejected_without_alert:
  assumes it: "get_item s pk = Some it"
    and post: "method_is_post req"
    and self: "seller it = user_pk (req_user req)"
  shows "place_bid fs st now s sess req pk =
           Inr (s, sess, [(Error_level, Cannot_bid_on_own_item)]) \<and>
         (\<forall>b. bidder b = seller it \<longrightarrow>
              detect_self_bidding it b =
                [\<lparr>fa_user = seller it, fa_item = Some (item_pk it), fa_alert_type = Self_bidding,
                  fa_severity = Critical, fa_bid = bid_pk b, is_resolved = False\<rparr>])"
  using assms by (simp add: place_bid_def detect_self_bidding_def new_alert_def)

theorem self_bid_rejected_without_alert_witness:
  "get_item (ex_ledger_db []) 7 = Some ex_item \<and>
   method_is_post (ex_post (ex_user 2 False) 1010) \<and>
   seller ex_item = user_pk (req_user (ex_post (ex_user 2 False) 1010)) \<and>
   place_bid ex_fraud_service ex_settings 50000 (ex_ledger_db []) ex_session
     (ex_post (ex_user 2 False) 1010) 7
   = Inr (ex_ledger_db [], ex_session, [(Error_level, Cannot_bid_on_own_item)]) \<and>
   detect_self_bidding ex_item (ex_bid 5 2 1010 50000) =
     [\<lparr>fa_user = 2, fa_item = Some 7, fa_alert_type = Self_bidding, fa_severity = Critical,
       fa_bid = 5, is_resolved = False\<rparr>]"
proof -
  have post: "method_is_post (ex_post (ex_user 2 False) 1010)" by (simp add: ex_post_def)
  have self: "seller ex_item = user_pk (req_user (ex_post (ex_user 2 False) 1010))"
    by (simp add: ex_post_def ex_user_def ex_item_def)
  have b: "bidder (ex_bid 5 2 1010 50000) = seller ex_item" by (simp add: ex_bid_def ex_item_def)
  from self_bid_rejected_without_alert [OF ex_get_item post self,
      where fs = ex_fraud_service and st = ex_settings and now = 50000 and sess = ex_session] b
  have "place_bid ex_fraud_service ex_settings 50000 (ex_ledger_db []) ex_session
          (ex_post (ex_user 2 False) 1010) 7
        = Inr (ex_ledger_db [], ex_session, [(Error_level, Cannot_bid_on_own_item)])"
    and "detect_self_bidding ex_item (ex_bid 5 2 1010 50000) =
          [\<lparr>fa_user = seller ex_item, fa_item = Some (item_pk ex_item),
            fa_alert_type = Self_bidding, fa_severity = Critical,
            fa_bid = bid_pk (ex_bid 5 2 1010 50000), is_resolved = False\<rparr>]"
    by blast+
  then show ?thesis
    using post self by (simp add: ex_get_item) (simp add: ex_item_def ex_bid_def)
qed

text \<open>
  C7 as stated fails: the seller (user 2) posts a bid on item 7; the attempt is rejected, and
  the alert table is as empty afterwards as it was before.
\<close>

theorem self_bid_no_alert_counterexample:
  "seller ex_item = user_pk (ex_user 2 False) \<and>
   place_bid ex_fraud_service ex_settings 50000 (ex_ledger_db []) ex_session
     (ex_post (ex_user 2 False) 1010) 7
   = Inr (ex_ledger_db [], ex_session, [(Error_level, Cannot_bid_on_own_item)]) \<and>
   db_alerts (ex_ledger_db []) = []"
  by (simp add: place_bid_def ex_get_item) (simp add: ex_defs)

subsection \<open>Hard cooldowns\<close>















subsection \<open>Fraud alerts\<close>

text \<open>
  \<open>analyze_bid\<close> never reaches its loop \<open>for alert in alerts: alert.save()\<close>:
  \<open>detect_bid_pattern_anomaly\<close> orders the \<open>Bid\<close> query by \<open>created_at\<close>, which is not a field
  of \<open>Bid\<close> (its timestamp is \<open>bid_time\<close>), so the call raises \<open>FieldError\<close>.
\<close>

lemma analyze_bid_raises: "analyze_bid fs st now s it usr b = Inl FieldError"
  by (simp add: analyze_bid_def detect_bid_pattern_anomaly_def order_by_def Bid_fields_def)

text \<open>
  C8 fails on the code. User 1 bids 20000 on item 7 after three bids around 1000: the
  unusual-amount detector builds a (non-critical) alert for the tentatively saved bid, but
  \<open>analyze_bid\<close> raises before anything is saved; \<open>place_bid\<close> catches the exception and admits
  the bid, and the alert table stays empty.
\<close>

theorem unusual_bid_alert_not_persisted:
  "get_item ex_three_bids_db 7 = Some (ex_item\<lparr>current_price := 1020, bid_count := 3\<rparr>) \<and>
   snd (save_bid 50000 ex_three_bids_db (ex_item\<lparr>current_price := 1020, bid_count := 3\<rparr>)
          (ex_user 1 False) 20000) = ex_unusual_bid \<and>
   detect_unusual_bid_amount ex_settings
     (fst (save_bid 50000 ex_three_bids_db (ex_item\<lparr>current_price := 1020, bid_count := 3\<rparr>)
             (ex_user 1 False) 20000))
     (ex_item\<lparr>current_price := 1020, bid_count := 3\<rparr>) ex_unusual_bid
   = [\<lparr>fa_user = 1, fa_item = Some 7, fa_alert_type = Unusual_bid_amount, fa_severity = Medium,
       fa_bid = 4, is_resolved = False\<rparr>] \<and>
   analyze_bid ex_fraud_service ex_settings 50000
     (fst (save_bid 50000 ex_three_bids_db (ex_item\<lparr>current_price := 1020, bid_count := 3\<rparr>)
             (ex_user 1 False) 20000))
     (ex_item\<lparr>current_price := 1020, bid_count := 3\<rparr>) (ex_user 1 False) ex_unusual_bid
   = Inl FieldError \<and>
   (case place_bid ex_fraud_service ex_settings 50000 ex_three_bids_db ex_session
           (ex_post (ex_user 1 False) 20000) 7 of
      Inl e \<Rightarrow> False
    | Inr (s', sess', msgs) \<Rightarrow>
        msgs = [(Success_level, Bid_placed 20000)] \<and> db_alerts s' = [] \<and>
        filter (\<lambda>b. is_winning b) (db_bids s') = [ex_unusual_bid\<lparr>is_winning := True\<rparr>])"
  by (simp add: gate_defs fraud_defs view_defs ex_defs ex_three_bids_db_def ex_unusual_bid_def
      Let_def)

subsection \<open>Buy Now\<close>

lemma buy_now_create_raises:
  "model_init WalletTransaction_fields buy_now_transaction_kwargs = Inl TypeError"
  by (simp add: model_init_def WalletTransaction_fields_def buy_now_transaction_kwargs_def)

lemma conditional_update_none:
  assumes "snd (conditional_update s pk u) = 0"
  shows "fst (conditional_update s pk u) = s"
proof -
  let ?hit = "\<lambda>i. item_pk i = pk \<and> status i = Active \<and> winner i = None"
  from assms have "\<forall>i\<in>set (db_items s). \<not> ?hit i"
    by (simp add: conditional_update_def Let_def filter_empty_conv)
  then have "map (\<lambda>i. if ?hit i then i\<lparr>status := Sold, winner := Some u\<rparr> else i) (db_items s)
      = db_items s"
    by (intro map_idI) simp
  then show ?thesis by (simp add: conditional_update_def Let_def)
qed

text \<open>
  The conditional update is a compare-and-set on the item row: once one update has run, a
  second one on the same item finds no row and changes nothing.
\<close>

lemma items_after_update:
  "db_items (fst (conditional_update s pk u)) =
     map (\<lambda>i. if item_pk i = pk \<and> status i = Active \<and> winner i = None
              then i\<lparr>status := Sold, winner := Some u\<rparr> else i) (db_items s)"
  by (simp add: conditional_update_def Let_def)

lemma count_after_update:
  "snd (conditional_update s pk u) =
     length (filter (\<lambda>i. item_pk i = pk \<and> status i = Active \<and> winner i = None) (db_items s))"
  by (simp add: conditional_update_def Let_def)

lemma no_hit_after_update:
  "filter (\<lambda>i. item_pk i = pk \<and> status i = Active \<and> winner i = None)
     (map (\<lambda>i. if item_pk i = pk \<and> status i = Active \<and> winner i = None
              then i\<lparr>status := Sold, winner := Some u\<rparr> else i) xs) = []"
  by (induction xs) auto

lemma conditional_update_second_misses:
  "snd (conditional_update (fst (conditional_update s pk u1)) pk u2) = 0 \<and>
   fst (conditional_update (fst (conditional_update s pk u1)) pk u2) =
     fst (conditional_update s pk u1)"
proof -
  let ?s1 = "fst (conditional_update s pk u1)"
  have "filter (\<lambda>i. item_pk i = pk \<and> status i = Active \<and> winner i = None) (db_items ?s1) = []"
    unfolding items_after_update by (rule no_hit_after_update)
  then have "snd (conditional_update ?s1 pk u2) = 0"
    unfolding count_after_update by simp
  with conditional_update_none show ?thesis by blast
qed

text \<open>
  The atomic block never commits a purchase: either the conditional update finds no row, or
  the first \<open>WalletTransaction.objects.create\<close> raises and the block is rolled back.
\<close>

lemma atomic_purchase:
  "atomic (purchase usr it wlt price) s = (s, Inr [(Error_level, Someone_else_purchased)]) \<or>
   atomic (purchase usr it wlt price) s = (s, Inl TypeError)"
proof (cases "snd (conditional_update s (item_pk it) (user_pk usr)) = 0")
  case True
  from conditional_update_none [OF True] True show ?thesis
    by (simp add: atomic_def purchase_def Let_def case_prod_beta)
next
  case False
  then show ?thesis
    by (simp add: atomic_def purchase_def Let_def case_prod_beta buy_now_create_raises)
qed

lemma atomic_purchase_fst: "fst (atomic (purchase usr it wlt price) s) = s"
  using atomic_purchase [of usr it wlt price s] by auto

lemma buy_now_changes_nothing: "fst (buy_now now s usr pk) = s"
  by (simp add: buy_now_def atomic_purchase_fst split: option.splits)

text \<open>
  C10. For an item that has at least one bid, every Buy Now attempt is rejected with an
  error message and leaves the database as it was; when the item is active, not ended, has
  a Buy Now price and the buyer is not the seller, the message is "Buy Now is no longer
  available. Bidding has started."
\<close>

theorem buy_now_rejected_once_bidding_started:
  assumes it: "get_item s pk = Some it"
    and bids: "\<exists>b\<in>set (db_bids s). bid_item b = pk"
  shows "\<exists>m. buy_now now s usr pk = (s, Inr [(Error_level, m)]) \<and>
             m \<in> {Auction_no_longer_active, Auction_has_ended, No_buy_now_price,
                  Cannot_buy_own_item, Bidding_has_started} \<and>
             (status it = Active \<and> now < end_time it \<and> seller it \<noteq> user_pk usr \<and>
              (\<exists>p. buy_now_price it = Some p \<and> p \<noteq> 0) \<longrightarrow> m = Bidding_has_started)"
proof -
  have "item_pk it = pk" using get_item_Some [OF it] by simp
  with bids have "list_ex (\<lambda>b. bid_item b = item_pk it) (db_bids s)"
    by (simp add: list_ex_iff)
  then show ?thesis
    by (auto simp: buy_now_def it split: option.splits)
qed

theorem buy_now_rejected_once_bidding_started_witness:
  "get_item (ex_buy_now_db [ex_bid 1 3 1010 100\<lparr>bid_item := 8\<rparr>]) 8 = Some ex_buy_now_item \<and>
   bid_item (ex_bid 1 3 1010 100\<lparr>bid_item := 8\<rparr>) = 8 \<and>
   buy_now 50000 (ex_buy_now_db [ex_bid 1 3 1010 100\<lparr>bid_item := 8\<rparr>]) (ex_user 1 False) 8
   = (ex_buy_now_db [ex_bid 1 3 1010 100\<lparr>bid_item := 8\<rparr>], Inr [(Error_level, Bidding_has_started)])"
proof -
  let ?b = "ex_bid 1 3 1010 100\<lparr>bid_item := 8\<rparr>"
  let ?s = "ex_buy_now_db [?b]"
  have it: "get_item ?s 8 = Some ex_buy_now_item"
    by (simp add: get_item_def ex_buy_now_db_def ex_buy_now_item_def)
  have b: "bid_item ?b = 8" by simp
  then have bids: "\<exists>b\<in>set (db_bids ?s). bid_item b = 8"
    by (simp add: ex_buy_now_db_def)
  have eligible: "status ex_buy_now_item = Active \<and> 50000 < end_time ex_buy_now_item \<and>
      seller ex_buy_now_item \<noteq> user_pk (ex_user 1 False) \<and>
      (\<exists>p. buy_now_price ex_buy_now_item = Some p \<and> p \<noteq> 0)"
    by (simp add: ex_buy_now_item_def ex_user_def)
  from buy_now_rejected_once_bidding_started [OF it bids, where now = 50000 and usr = "ex_user 1 False"]
    eligible
  have "buy_now 50000 ?s (ex_user 1 False) 8 = (?s, Inr [(Error_level, Bidding_has_started)])"
    by blast
  with it b show ?thesis by blast
qed

text \<open>
  C5 fails on the code. Item 8 is active, unowned, has a Buy Now price and no bids; users 1
  and 3 can both afford it. The conditional update of the first attempt does hit the row,
  but the attempt ends in \<open>TypeError\<close> inside the atomic block and is rolled back; so does
  the second. After both attempts the item is still active and has no winner: no attempt
  sold it, and none saw zero rows.
\<close>

theorem buy_now_never_sells:
  "snd (conditional_update (ex_buy_now_db []) 8 1) = 1 \<and>
   map status (db_items (fst (conditional_update (ex_buy_now_db []) 8 1))) = [Sold] \<and>
   buy_now 50000 (ex_buy_now_db []) (ex_user 1 False) 8 = (ex_buy_now_db [], Inl TypeError) \<and>
   buy_now 50000 (ex_buy_now_db []) (ex_user 3 False) 8 = (ex_buy_now_db [], Inl TypeError) \<and>
   map status (db_items (ex_buy_now_db [])) = [Active] \<and>
   map winner (db_items (ex_buy_now_db [])) = [None]"
  by (simp add: buy_now_def get_item_def get_wallet_def atomic_def purchase_def
      conditional_update_def save_wallet_def buy_now_create_raises ex_buy_now_db_def
      ex_buy_now_item_def ex_user_def Let_def)

end
